theory Spec2Isabelle
  imports Main
begin

section \<open>JavaScript values\<close>

text \<open>
  The handlers read \<^verbatim>\<open>req.body\<close>, the value \<^verbatim>\<open>express.json()\<close> parsed from the
  request, and answer with the object handed to \<^verbatim>\<open>res.json\<close>. Both are JavaScript
  values. A string is a list of code units (\<open>.length\<close> counts them); a number is kept as
  an integer, since the handlers only test numbers for being zero and compare a length
  with 6. \<open>JObj\<close> lists the own properties of a plain object in order, keys distinct.
\<close>

datatype jsval =
    JUndefined
  | JNull
  | JBool bool
  | JNum int
  | JStr string
  | JArr "jsval list"
  | JObj "(string \<times> jsval) list"

text \<open>The coercion to boolean done by \<^verbatim>\<open>!v\<close>, \<^verbatim>\<open>a || b\<close> and \<^verbatim>\<open>if (v)\<close>.\<close>

fun truthy :: "jsval \<Rightarrow> bool" where
  "truthy JUndefined = False"
| "truthy JNull = False"
| "truthy (JBool b) = b"
| "truthy (JNum n) = (n \<noteq> 0)"
| "truthy (JStr s) = (s \<noteq> [])"
| "truthy (JArr xs) = True"
| "truthy (JObj kvs) = True"

fun typeof :: "jsval \<Rightarrow> string" where
  "typeof JUndefined = ''undefined''"
| "typeof JNull = ''object''"
| "typeof (JBool b) = ''boolean''"
| "typeof (JNum n) = ''number''"
| "typeof (JStr s) = ''string''"
| "typeof (JArr xs) = ''object''"
| "typeof (JObj kvs) = ''object''"

text \<open>
  Reading one of the properties \<^verbatim>\<open>email\<close>, \<^verbatim>\<open>password\<close>, \<^verbatim>\<open>username\<close> by
  destructuring: an own property of an object, \<^verbatim>\<open>undefined\<close> on every other value that
  can be destructured.
\<close>

fun property :: "jsval \<Rightarrow> string \<Rightarrow> jsval" where
  "property (JObj kvs) k = (case map_of kvs k of None \<Rightarrow> JUndefined | Some v \<Rightarrow> v)"
| "property v k = JUndefined"

text \<open>\<^verbatim>\<open>v.length\<close> for a truthy \<open>v\<close>.\<close>

fun js_length :: "jsval \<Rightarrow> jsval" where
  "js_length (JStr s) = JNum (int (length s))"
| "js_length (JArr xs) = JNum (int (length xs))"
| "js_length (JObj kvs) = property (JObj kvs) ''length''"
| "js_length v = JUndefined"

text \<open>\<^verbatim>\<open>a || b\<close>.\<close>

definition js_or :: "jsval \<Rightarrow> jsval \<Rightarrow> jsval" where
  "js_or a b = (if truthy a then a else b)"

section \<open>Errors thrown inside a handler\<close>

text \<open>
  Every handler body is a \<^verbatim>\<open>try\<close> block. What can be thrown in it: a \<open>TypeError\<close> when
  \<^verbatim>\<open>req.body\<close> is \<^verbatim>\<open>undefined\<close> or \<^verbatim>\<open>null\<close> and is destructured, the Prisma client's
  rejection of an argument of the wrong type, its report of a violated unique index
  or of a value too long for its column, bcryptjs's \<^verbatim>\<open>Illegal arguments: <typeof>, <typeof>\<close>, and whatever else a library
  raises.
\<close>

datatype exn =
    TypeError
  | PrismaValidationError
  | PrismaUniqueConstraint string
  | PrismaValueTooLong
  | BcryptIllegalArguments string string
  | LibraryError string

section \<open>The libraries and the environment\<close>

text \<open>
  bcryptjs, jsonwebtoken and the database engine are not part of the repository. What
  they compute is a parameter of the model:
  \<^item> \<open>bcrypt_hash_impl\<close>: the hash of a string for a cost factor and a salt;
  \<^item> \<open>bcrypt_compare_impl\<close>: whether a string matches a stored hash string;
  \<^item> \<open>jwt_sign\<close>: the token for a payload, a secret, a validity and the clock;
    \<open>jwt_decode\<close>: the payload a token carries (no handler decodes a token);
  \<^item> \<open>collate\<close>: the key under which the database compares two strings (the tables
    are declared with \<^verbatim>\<open>COLLATE utf8mb4_unicode_ci\<close>);
  \<^item> \<open>to_number_less\<close>: \<^verbatim>\<open>v < n\<close> for a \<open>v\<close> that is a string, an array or an object;
  \<^item> \<open>error_message\<close>: the \<^verbatim>\<open>message\<close> of a thrown error;
  \<^item> \<open>number_text\<close>: the text \<^verbatim>\<open>JSON.stringify\<close> gives a number.
\<close>

record libs =
  bcrypt_hash_impl :: "string \<Rightarrow> nat \<Rightarrow> string \<Rightarrow> string"
  bcrypt_compare_impl :: "string \<Rightarrow> string \<Rightarrow> exn + bool"
  jwt_sign :: "jsval \<Rightarrow> string \<Rightarrow> string \<Rightarrow> nat \<Rightarrow> string"
  jwt_decode :: "string \<Rightarrow> jsval option"
  collate :: "string \<Rightarrow> string"
  to_number_less :: "jsval \<Rightarrow> int \<Rightarrow> exn + bool"
  error_message :: "exn \<Rightarrow> string"
  number_text :: "int \<Rightarrow> string"

text \<open>
  What one request finds around it: the environment variable \<^verbatim>\<open>JWT_SECRET\<close>, the
  clock, the salt bcryptjs draws, and the identifier the Prisma client gives a new
  \<^verbatim>\<open>User\<close> row (the handlers pass none; the column is \<^verbatim>\<open>NOT NULL\<close>).
\<close>

record env =
  JWT_SECRET :: "string option"
  clock :: nat
  salt :: string
  generated_id :: string

text \<open>\<^verbatim>\<open>process.env.JWT_SECRET || fallback\<close>: an unset or empty variable is falsy.\<close>

definition secret_or :: "env \<Rightarrow> string \<Rightarrow> string" where
  "secret_or e fallback =
     (case JWT_SECRET e of
        None \<Rightarrow> fallback
      | Some s \<Rightarrow> if s = [] then fallback else s)"

text \<open>
  \<^verbatim>\<open>bcrypt.hash(s, 12)\<close> and \<^verbatim>\<open>bcrypt.compare(s, hash)\<close>: bcryptjs rejects an argument
  that is not a string before it computes anything.
\<close>

definition bcrypt_hash :: "libs \<Rightarrow> jsval \<Rightarrow> nat \<Rightarrow> string \<Rightarrow> exn + string" where
  "bcrypt_hash lib s rounds slt =
     (case s of
        JStr p \<Rightarrow> Inr (bcrypt_hash_impl lib p rounds slt)
      | _ \<Rightarrow> Inl (BcryptIllegalArguments (typeof s) ''number''))"

definition bcrypt_compare :: "libs \<Rightarrow> jsval \<Rightarrow> string option \<Rightarrow> exn + bool" where
  "bcrypt_compare lib s hash =
     (case s of
        JStr p \<Rightarrow>
          (case hash of
             Some h \<Rightarrow> bcrypt_compare_impl lib p h
           | None \<Rightarrow> Inl (BcryptIllegalArguments ''string'' ''object''))
      | _ \<Rightarrow>
          Inl (BcryptIllegalArguments (typeof s)
                 (case hash of None \<Rightarrow> ''object'' | Some h \<Rightarrow> ''string'')))"

text \<open>
  \<^verbatim>\<open>password.length < 6\<close>: a number is compared as it is, \<^verbatim>\<open>undefined\<close> becomes
  \<open>NaN\<close> and is less than nothing, \<^verbatim>\<open>null\<close> and booleans become 0 or 1.
\<close>

definition js_less :: "libs \<Rightarrow> jsval \<Rightarrow> int \<Rightarrow> exn + bool" where
  "js_less lib v n =
     (case v of
        JUndefined \<Rightarrow> Inr False
      | JNull \<Rightarrow> Inr (0 < n)
      | JBool b \<Rightarrow> Inr ((if b then 1 else 0) < n)
      | JNum m \<Rightarrow> Inr (m < n)
      | _ \<Rightarrow> to_number_less lib v n)"

section \<open>JSON text\<close>

text \<open>
  \<^verbatim>\<open>JSON.stringify\<close>, which \<^verbatim>\<open>res.json\<close> applies to its argument. A string is quoted
  with \<open>CHR 0x22\<close>; the quote, the backslash \<open>CHR 0x5C\<close> and the control characters
  are escaped. A member whose value is \<^verbatim>\<open>undefined\<close> is left out of an object, and
  \<^verbatim>\<open>undefined\<close> in an array is written \<^verbatim>\<open>null\<close>.
\<close>

definition hex_digit :: "nat \<Rightarrow> char" where
  "hex_digit n = ''0123456789abcdef'' ! (n mod 16)"

definition escape_char :: "char \<Rightarrow> string" where
  "escape_char c =
     (if c = CHR 0x22 then [CHR 0x5C, CHR 0x22]
      else if c = CHR 0x5C then [CHR 0x5C, CHR 0x5C]
      else if c = CHR 0x08 then [CHR 0x5C, CHR ''b'']
      else if c = CHR 0x09 then [CHR 0x5C, CHR ''t'']
      else if c = CHR 0x0A then [CHR 0x5C, CHR ''n'']
      else if c = CHR 0x0C then [CHR 0x5C, CHR ''f'']
      else if c = CHR 0x0D then [CHR 0x5C, CHR ''r'']
      else if of_char c < (32 :: nat)
        then [CHR 0x5C, CHR ''u'', CHR ''0'', CHR ''0'',
              hex_digit (of_char c div 16), hex_digit (of_char c)]
      else [c])"

definition quote :: "string \<Rightarrow> string" where
  "quote s = [CHR 0x22] @ concat (map escape_char s) @ [CHR 0x22]"

fun join :: "string list \<Rightarrow> string" where
  "join [] = []"
| "join [x] = x"
| "join (x # y # ys) = x @ '','' @ join (y # ys)"

fun stringify :: "libs \<Rightarrow> jsval \<Rightarrow> string" where
  "stringify lib JUndefined = ''null''"
| "stringify lib JNull = ''null''"
| "stringify lib (JBool b) = (if b then ''true'' else ''false'')"
| "stringify lib (JNum n) = number_text lib n"
| "stringify lib (JStr s) = quote s"
| "stringify lib (JArr xs) = ''['' @ join (map (stringify lib) xs) @ '']''"
| "stringify lib (JObj kvs) =
     ''{'' @ join (map (\<lambda>kv. quote (fst kv) @ '':'' @ stringify lib (snd kv))
                    (filter (\<lambda>kv. snd kv \<noteq> JUndefined) kvs)) @ ''}''"

declare stringify.simps [simp del]

section \<open>The user table\<close>

text \<open>
  The migration declares \<^verbatim>\<open>User\<close> with \<^verbatim>\<open>id\<close> (primary key), \<^verbatim>\<open>email\<close> (unique index
  \<^verbatim>\<open>User_email_key\<close>), and the nullable \<^verbatim>\<open>username\<close> and \<^verbatim>\<open>password\<close>. The table is
  the list of its rows, oldest first. All four columns are \<^verbatim>\<open>VARCHAR(191)\<close>: the
  database, in the strict mode that is its default, rejects a longer value. Failures
  of the connection are not modelled.
\<close>

record user =
  user_id :: string
  user_email :: string
  user_username :: "string option"
  user_password :: "string option"

type_synonym user_table = "user list"

definition varchar191 :: "string \<Rightarrow> bool" where
  "varchar191 s = (length s \<le> 191)"

text \<open>A nullable text column as the Prisma client returns it.\<close>

definition column :: "string option \<Rightarrow> jsval" where
  "column c = (case c of None \<Rightarrow> JNull | Some s \<Rightarrow> JStr s)"

text \<open>
  \<^verbatim>\<open>prisma.user.findUnique({ where: { email } })\<close>: the client throws unless \<open>email\<close>
  is a string; the engine compares by the column's collation.
\<close>

definition findUnique :: "libs \<Rightarrow> user_table \<Rightarrow> jsval \<Rightarrow> exn + user option" where
  "findUnique lib tbl email =
     (case email of
        JStr e \<Rightarrow> Inr (find (\<lambda>u. collate lib (user_email u) = collate lib e) tbl)
      | _ \<Rightarrow> Inl PrismaValidationError)"

text \<open>
  \<^verbatim>\<open>prisma.user.create({ data: { email, username, password } })\<close>: \<open>email\<close> must be a
  string and \<open>username\<close> a string or \<^verbatim>\<open>null\<close>, or the client throws; the database
  rejects a value longer than its column, and the unique index on \<open>email\<close> and the
  primary key reject a row whose key is taken; otherwise the row is appended and
  returned.
\<close>

definition create :: "libs \<Rightarrow> env \<Rightarrow> user_table \<Rightarrow> jsval \<Rightarrow> jsval \<Rightarrow> string
    \<Rightarrow> exn + (user \<times> user_table)" where
  "create lib e tbl email username hashedPassword =
     (case email of
        JStr em \<Rightarrow>
          (if username \<noteq> JNull \<and> typeof username \<noteq> ''string'' then Inl PrismaValidationError
           else if \<not> varchar191 (generated_id e) \<or> \<not> varchar191 em
               \<or> \<not> varchar191 (case username of JStr n \<Rightarrow> n | _ \<Rightarrow> [])
               \<or> \<not> varchar191 hashedPassword
             then Inl PrismaValueTooLong
           else if collate lib em \<in> set (map (\<lambda>u. collate lib (user_email u)) tbl)
             then Inl (PrismaUniqueConstraint ''User_email_key'')
           else if collate lib (generated_id e) \<in> set (map (\<lambda>u. collate lib (user_id u)) tbl)
             then Inl (PrismaUniqueConstraint ''PRIMARY'')
           else
             let u = \<lparr>user_id = generated_id e, user_email = em,
                       user_username = (case username of JStr n \<Rightarrow> Some n | _ \<Rightarrow> None),
                       user_password = Some hashedPassword\<rparr>
             in Inr (u, tbl @ [u]))
      | _ \<Rightarrow> Inl PrismaValidationError)"

section \<open>Responses\<close>

record response =
  status :: nat
  payload :: jsval

text \<open>
  An answer is its status and its payload: the value whose JSON text is the body sent,
  which is what a client gets by parsing the body. \<open>json code obj\<close> is
  \<^verbatim>\<open>res.status(code).json(obj)\<close> of Express as it comes (routes/auth.js), and
  \<^verbatim>\<open>res.json(obj)\<close> is \<open>json 200 obj\<close>: the body is the JSON text of the object. No
  object handed to \<^verbatim>\<open>res.json\<close> has a member that is \<^verbatim>\<open>undefined\<close>.
\<close>

definition json :: "nat \<Rightarrow> (string \<times> jsval) list \<Rightarrow> response" where
  "json code obj = \<lparr>status = code, payload = JObj obj\<rparr>"

text \<open>The texts of the answers; \<open>CHR 0xF1\<close>, \<open>CHR 0xF3\<close> and \<open>CHR 0xE1\<close> are the code
  units of n with tilde, o with acute and a with acute.\<close>

definition msg_required :: string where
  "msg_required = ''Email y contrase'' @ [CHR 0xF1] @ ''a son requeridos''"

definition msg_not_found :: string where
  "msg_not_found = ''Usuario no encontrado''"

definition msg_wrong_password :: string where
  "msg_wrong_password = ''Contrase'' @ [CHR 0xF1] @ ''a incorrecta''"

definition msg_login :: string where
  "msg_login = ''Login exitoso''"

definition msg_login_simulated :: string where
  "msg_login_simulated = ''Login exitoso (modo simulaci'' @ [CHR 0xF3] @ ''n)''"

definition msg_test_credentials :: string where
  "msg_test_credentials =
     ''Credenciales inv'' @ [CHR 0xE1] @ ''lidas. Usa: test@test.com / 123456''"

definition msg_internal :: string where
  "msg_internal = ''Error interno del servidor''"

definition msg_short_password :: string where
  "msg_short_password =
     ''La contrase'' @ [CHR 0xF1] @ ''a debe tener al menos 6 caracteres''"

definition msg_exists :: string where
  "msg_exists = ''Ya existe un usuario con este email''"

definition msg_registered :: string where
  "msg_registered = ''Usuario registrado exitosamente''"

definition msg_registered_simulated :: string where
  "msg_registered_simulated =
     ''Usuario registrado exitosamente (modo simulaci'' @ [CHR 0xF3] @ ''n)''"

definition msg_email_required :: string where
  "msg_email_required = ''Email es requerido''"

definition msg_recover :: string where
  "msg_recover =
     ''Se ha enviado un email con las instrucciones para recuperar tu contrase''
       @ [CHR 0xF1] @ ''a''"

section \<open>routes/auth.js\<close>

text \<open>
  The module creates its Prisma client when it is loaded, so its state is the user
  table. \<^verbatim>\<open>JWT_SECRET\<close> is \<^verbatim>\<open>process.env.JWT_SECRET || 'fallback-secret-key-2024'\<close>.
  Each handler is its \<^verbatim>\<open>try\<close> block (\<open>_try\<close>: what it answers or what it throws, and
  the table it leaves) under its \<^verbatim>\<open>catch\<close>. Console output is not modelled.
\<close>

definition auth_JWT_SECRET :: "env \<Rightarrow> string" where
  "auth_JWT_SECRET e = secret_or e ''fallback-secret-key-2024''"

definition auth_login_try :: "libs \<Rightarrow> env \<Rightarrow> user_table \<Rightarrow> jsval
    \<Rightarrow> (exn + response) \<times> user_table" where
  "auth_login_try lib e prisma body =
     (if body = JUndefined \<or> body = JNull then (Inl TypeError, prisma)
      else
        let email = property body ''email'';
            password = property body ''password''
        in
          if \<not> truthy email \<or> \<not> truthy password
          then (Inr (json 400 [(''error'', JStr msg_required)]), prisma)
          else
            (case findUnique lib prisma email of
               Inl err \<Rightarrow> (Inl err, prisma)
             | Inr None \<Rightarrow> (Inr (json 400 [(''error'', JStr msg_not_found)]), prisma)
             | Inr (Some user) \<Rightarrow>
                 (case bcrypt_compare lib password (user_password user) of
                    Inl err \<Rightarrow> (Inl err, prisma)
                  | Inr isPasswordValid \<Rightarrow>
                      if \<not> isPasswordValid
                      then (Inr (json 400 [(''error'', JStr msg_wrong_password)]), prisma)
                      else
                        let token = jwt_sign lib
                              (JObj [(''userId'', JStr (user_id user)),
                                     (''email'', JStr (user_email user))])
                              (auth_JWT_SECRET e) ''24h'' (clock e)
                        in (Inr (json 200
                              [(''message'', JStr msg_login),
                               (''token'', JStr token),
                               (''user'', JObj
                                  [(''id'', JStr (user_id user)),
                                   (''email'', JStr (user_email user)),
                                   (''username'', column (user_username user))])]),
                            prisma))))"

definition auth_error :: response where
  "auth_error = json 500 [(''error'', JStr msg_internal)]"

definition auth_login :: "libs \<Rightarrow> env \<Rightarrow> user_table \<Rightarrow> jsval
    \<Rightarrow> response \<times> user_table" where
  "auth_login lib e prisma body =
     (case auth_login_try lib e prisma body of
        (Inl err, prisma') \<Rightarrow> (auth_error, prisma')
      | (Inr res, prisma') \<Rightarrow> (res, prisma'))"

definition auth_register_try :: "libs \<Rightarrow> env \<Rightarrow> user_table \<Rightarrow> jsval
    \<Rightarrow> (exn + response) \<times> user_table" where
  "auth_register_try lib e prisma body =
     (if body = JUndefined \<or> body = JNull then (Inl TypeError, prisma)
      else
        let email = property body ''email'';
            password = property body ''password'';
            username = property body ''username''
        in
          if \<not> truthy email \<or> \<not> truthy password
          then (Inr (json 400 [(''error'', JStr msg_required)]), prisma)
          else
            (case js_less lib (js_length password) 6 of
               Inl err \<Rightarrow> (Inl err, prisma)
             | Inr short \<Rightarrow>
                 if short
                 then (Inr (json 400 [(''error'', JStr msg_short_password)]), prisma)
                 else
                   (case findUnique lib prisma email of
                      Inl err \<Rightarrow> (Inl err, prisma)
                    | Inr (Some existingUser) \<Rightarrow>
                        (Inr (json 400 [(''error'', JStr msg_exists)]), prisma)
                    | Inr None \<Rightarrow>
                        (case bcrypt_hash lib password 12 (salt e) of
                           Inl err \<Rightarrow> (Inl err, prisma)
                         | Inr hashedPassword \<Rightarrow>
                             (case create lib e prisma email (js_or username JNull)
                                     hashedPassword of
                                Inl err \<Rightarrow> (Inl err, prisma)
                              | Inr (user, prisma') \<Rightarrow>
                                  let token = jwt_sign lib
                                        (JObj [(''userId'', JStr (user_id user)),
                                               (''email'', JStr (user_email user))])
                                        (auth_JWT_SECRET e) ''24h'' (clock e)
                                  in (Inr (json 201
                                        [(''message'', JStr msg_registered),
                                         (''token'', JStr token),
                                         (''user'', JObj
                                            [(''id'', JStr (user_id user)),
                                             (''email'', JStr (user_email user)),
                                             (''username'',
                                                column (user_username user))])]),
                                      prisma'))))))"

definition auth_register :: "libs \<Rightarrow> env \<Rightarrow> user_table \<Rightarrow> jsval
    \<Rightarrow> response \<times> user_table" where
  "auth_register lib e prisma body =
     (case auth_register_try lib e prisma body of
        (Inl err, prisma') \<Rightarrow> (auth_error, prisma')
      | (Inr res, prisma') \<Rightarrow> (res, prisma'))"

definition auth_recover_try :: "libs \<Rightarrow> user_table \<Rightarrow> jsval
    \<Rightarrow> (exn + response) \<times> user_table" where
  "auth_recover_try lib prisma body =
     (if body = JUndefined \<or> body = JNull then (Inl TypeError, prisma)
      else
        let email = property body ''email'' in
          if \<not> truthy email
          then (Inr (json 400 [(''error'', JStr msg_email_required)]), prisma)
          else
            (case findUnique lib prisma email of
               Inl err \<Rightarrow> (Inl err, prisma)
             | Inr None \<Rightarrow> (Inr (json 404 [(''error'', JStr msg_not_found)]), prisma)
             | Inr (Some user) \<Rightarrow>
                 (Inr (json 200 [(''message'', JStr msg_recover), (''email'', email)]),
                  prisma)))"

definition auth_recover :: "libs \<Rightarrow> user_table \<Rightarrow> jsval \<Rightarrow> response \<times> user_table" where
  "auth_recover lib prisma body =
     (case auth_recover_try lib prisma body of
        (Inl err, prisma') \<Rightarrow> (auth_error, prisma')
      | (Inr res, prisma') \<Rightarrow> (res, prisma'))"

section \<open>server.js\<close>

text \<open>
  Here \<^verbatim>\<open>prisma\<close> stays \<^verbatim>\<open>null\<close> when the client could not be created: the state is a
  user table or nothing. The \<^verbatim>\<open>catch\<close> blocks add the error's message to the answer.
  The first middleware replaces \<^verbatim>\<open>res.send\<close>: \<open>send\<close> is the value whose JSON text the
  replacement passes on, a string that starts with neither brace nor bracket being
  wrapped in \<^verbatim>\<open>{ message: data }\<close>. \<^verbatim>\<open>res.json(obj)\<close> of Express calls \<^verbatim>\<open>res.send\<close> with
  the JSON text of \<open>obj\<close>, so in this file \<^verbatim>\<open>res.status(code).json(obj)\<close> is
  \<open>server_json lib code obj\<close>: the body sent is that text stringified once more.
\<close>

definition starts_with :: "string \<Rightarrow> char \<Rightarrow> bool" where
  "starts_with s c = (case s of [] \<Rightarrow> False | x # xs \<Rightarrow> x = c)"

definition send :: "jsval \<Rightarrow> jsval" where
  "send data =
     (case data of
        JStr s \<Rightarrow>
          if \<not> starts_with s (CHR ''{'') \<and> \<not> starts_with s (CHR ''['')
          then JObj [(''message'', data)]
          else data
      | _ \<Rightarrow> data)"

definition server_json :: "libs \<Rightarrow> nat \<Rightarrow> (string \<times> jsval) list \<Rightarrow> response" where
  "server_json lib code obj =
     \<lparr>status = code, payload = send (JStr (stringify lib (JObj obj)))\<rparr>"

definition server_error :: "libs \<Rightarrow> exn \<Rightarrow> response" where
  "server_error lib err =
     server_json lib 500
       [(''error'', JStr msg_internal), (''details'', JStr (error_message lib err))]"

definition server_login_try :: "libs \<Rightarrow> env \<Rightarrow> user_table option \<Rightarrow> jsval
    \<Rightarrow> (exn + response) \<times> user_table option" where
  "server_login_try lib e prisma body =
     (if body = JUndefined \<or> body = JNull then (Inl TypeError, prisma)
      else
        let email = property body ''email'';
            password = property body ''password''
        in
          if \<not> truthy email \<or> \<not> truthy password
          then (Inr (server_json lib 400 [(''error'', JStr msg_required)]), prisma)
          else
            (case prisma of
               None \<Rightarrow>
                 if email = JStr ''test@test.com'' \<and> password = JStr ''123456''
                 then
                   let token = jwt_sign lib
                         (JObj [(''userId'', JStr ''test-user-id''), (''email'', email)])
                         (secret_or e ''test-secret'') ''24h'' (clock e)
                   in (Inr (server_json lib 200
                         [(''message'', JStr msg_login_simulated),
                          (''token'', JStr token),
                          (''user'', JObj
                             [(''id'', JStr ''test-user-id''),
                              (''email'', email),
                              (''username'', JStr ''usuario_prueba'')]),
                          (''simulated'', JBool True)]),
                       prisma)
                 else
                   (Inr (server_json lib 400
                      [(''error'', JStr msg_test_credentials),
                       (''simulated'', JBool True)]),
                    prisma)
             | Some tbl \<Rightarrow>
                 (case findUnique lib tbl email of
                    Inl err \<Rightarrow> (Inl err, prisma)
                  | Inr None \<Rightarrow>
                      (Inr (server_json lib 400 [(''error'', JStr msg_not_found)]), prisma)
                  | Inr (Some user) \<Rightarrow>
                      (case bcrypt_compare lib password (user_password user) of
                         Inl err \<Rightarrow> (Inl err, prisma)
                       | Inr isPasswordValid \<Rightarrow>
                           if \<not> isPasswordValid
                           then (Inr (server_json lib 400
                                        [(''error'', JStr msg_wrong_password)]),
                                 prisma)
                           else
                             let token = jwt_sign lib
                                   (JObj [(''userId'', JStr (user_id user)),
                                          (''email'', JStr (user_email user))])
                                   (secret_or e ''fallback-secret'') ''24h'' (clock e)
                             in (Inr (server_json lib 200
                                   [(''message'', JStr msg_login),
                                    (''token'', JStr token),
                                    (''user'', JObj
                                       [(''id'', JStr (user_id user)),
                                        (''email'', JStr (user_email user)),
                                        (''username'', column (user_username user))])]),
                                 prisma)))))"

definition server_login :: "libs \<Rightarrow> env \<Rightarrow> user_table option \<Rightarrow> jsval
    \<Rightarrow> response \<times> user_table option" where
  "server_login lib e prisma body =
     (case server_login_try lib e prisma body of
        (Inl err, prisma') \<Rightarrow> (server_error lib err, prisma')
      | (Inr res, prisma') \<Rightarrow> (res, prisma'))"

definition server_register_try :: "libs \<Rightarrow> env \<Rightarrow> user_table option \<Rightarrow> jsval
    \<Rightarrow> (exn + response) \<times> user_table option" where
  "server_register_try lib e prisma body =
     (if body = JUndefined \<or> body = JNull then (Inl TypeError, prisma)
      else
        let email = property body ''email'';
            password = property body ''password'';
            username = property body ''username''
        in
          if \<not> truthy email \<or> \<not> truthy password
          then (Inr (server_json lib 400 [(''error'', JStr msg_required)]), prisma)
          else
            (case js_less lib (js_length password) 6 of
               Inl err \<Rightarrow> (Inl err, prisma)
             | Inr short \<Rightarrow>
                 if short
                 then (Inr (server_json lib 400 [(''error'', JStr msg_short_password)]), prisma)
                 else
                   (case prisma of
                      None \<Rightarrow>
                        let token = jwt_sign lib
                              (JObj [(''userId'', JStr ''new-user-id''), (''email'', email)])
                              (secret_or e ''test-secret'') ''24h'' (clock e)
                        in (Inr (server_json lib 201
                              [(''message'', JStr msg_registered_simulated),
                               (''token'', JStr token),
                               (''user'', JObj
                                  [(''id'', JStr ''new-user-id''),
                                   (''email'', email),
                                   (''username'', js_or username (JStr ''nuevo_usuario''))]),
                               (''simulated'', JBool True)]),
                            prisma)
                    | Some tbl \<Rightarrow>
                        (case findUnique lib tbl email of
                           Inl err \<Rightarrow> (Inl err, prisma)
                         | Inr (Some existingUser) \<Rightarrow>
                             (Inr (server_json lib 400 [(''error'', JStr msg_exists)]), prisma)
                         | Inr None \<Rightarrow>
                             (case bcrypt_hash lib password 12 (salt e) of
                                Inl err \<Rightarrow> (Inl err, prisma)
                              | Inr hashedPassword \<Rightarrow>
                                  (case create lib e tbl email (js_or username JNull)
                                          hashedPassword of
                                     Inl err \<Rightarrow> (Inl err, prisma)
                                   | Inr (user, tbl') \<Rightarrow>
                                       let token = jwt_sign lib
                                             (JObj [(''userId'', JStr (user_id user)),
                                                    (''email'', JStr (user_email user))])
                                             (secret_or e ''fallback-secret'') ''24h''
                                             (clock e)
                                       in (Inr (server_json lib 201
                                             [(''message'', JStr msg_registered),
                                              (''token'', JStr token),
                                              (''user'', JObj
                                                 [(''id'', JStr (user_id user)),
                                                  (''email'', JStr (user_email user)),
                                                  (''username'',
                                                     column (user_username user))])]),
                                           Some tbl')))))))"

definition server_register :: "libs \<Rightarrow> env \<Rightarrow> user_table option \<Rightarrow> jsval
    \<Rightarrow> response \<times> user_table option" where
  "server_register lib e prisma body =
     (case server_register_try lib e prisma body of
        (Inl err, prisma') \<Rightarrow> (server_error lib err, prisma')
      | (Inr res, prisma') \<Rightarrow> (res, prisma'))"

text \<open>The recover route of server.js never reads \<^verbatim>\<open>prisma\<close>.\<close>

definition server_recover_try :: "libs \<Rightarrow> user_table option \<Rightarrow> jsval
    \<Rightarrow> (exn + response) \<times> user_table option" where
  "server_recover_try lib prisma body =
     (if body = JUndefined \<or> body = JNull then (Inl TypeError, prisma)
      else
        let email = property body ''email'' in
          if \<not> truthy email
          then (Inr (server_json lib 400 [(''error'', JStr msg_email_required)]), prisma)
          else
            (Inr (server_json lib 200
               [(''message'', JStr msg_recover),
                (''email'', email),
                (''simulated'', JBool True)]),
             prisma))"

definition server_recover :: "libs \<Rightarrow> user_table option \<Rightarrow> jsval
    \<Rightarrow> response \<times> user_table option" where
  "server_recover lib prisma body =
     (case server_recover_try lib prisma body of
        (Inl err, prisma') \<Rightarrow> (server_error lib err, prisma')
      | (Inr res, prisma') \<Rightarrow> (res, prisma'))"

section \<open>Registration between its awaits\<close>

text \<open>
  A registration handler waits three times: for \<^verbatim>\<open>findUnique\<close>, for \<^verbatim>\<open>bcrypt.hash\<close> and
  for \<^verbatim>\<open>create\<close>, and other requests are served meanwhile. It reads the table at the
  first and writes it at the last. \<open>_lookup\<close> is the handler up to the hash, on the
  table it reads: it has answered or thrown, or it holds what it will insert.
  \<open>_insert\<close> is the rest, on the table it meets then. \<open>_between\<close> is a whole run whose
  lookup read \<open>seen\<close> and whose insert meets \<open>prisma\<close>; with the same table for both
  it is the handler run alone.
\<close>

datatype lookup =
    Answered "exn + response"
  | Pending jsval jsval string

definition auth_register_lookup :: "libs \<Rightarrow> env \<Rightarrow> user_table \<Rightarrow> jsval \<Rightarrow> lookup" where
  "auth_register_lookup lib e prisma body =
     (if body = JUndefined \<or> body = JNull then Answered (Inl TypeError)
      else
        let email = property body ''email'';
            password = property body ''password'';
            username = property body ''username''
        in
          if \<not> truthy email \<or> \<not> truthy password
          then Answered (Inr (json 400 [(''error'', JStr msg_required)]))
          else
            (case js_less lib (js_length password) 6 of
               Inl err \<Rightarrow> Answered (Inl err)
             | Inr short \<Rightarrow>
                 if short
                 then Answered (Inr (json 400 [(''error'', JStr msg_short_password)]))
                 else
                   (case findUnique lib prisma email of
                      Inl err \<Rightarrow> Answered (Inl err)
                    | Inr (Some existingUser) \<Rightarrow>
                        Answered (Inr (json 400 [(''error'', JStr msg_exists)]))
                    | Inr None \<Rightarrow>
                        (case bcrypt_hash lib password 12 (salt e) of
                           Inl err \<Rightarrow> Answered (Inl err)
                         | Inr hashedPassword \<Rightarrow> Pending email username hashedPassword))))"

definition auth_register_insert :: "libs \<Rightarrow> env \<Rightarrow> user_table \<Rightarrow> jsval \<Rightarrow> jsval \<Rightarrow> string
    \<Rightarrow> (exn + response) \<times> user_table" where
  "auth_register_insert lib e prisma email username hashedPassword =
     (case create lib e prisma email (js_or username JNull) hashedPassword of
        Inl err \<Rightarrow> (Inl err, prisma)
      | Inr (user, prisma') \<Rightarrow>
          let token = jwt_sign lib
                (JObj [(''userId'', JStr (user_id user)),
                       (''email'', JStr (user_email user))])
                (auth_JWT_SECRET e) ''24h'' (clock e)
          in (Inr (json 201
                [(''message'', JStr msg_registered),
                 (''token'', JStr token),
                 (''user'', JObj
                    [(''id'', JStr (user_id user)),
                     (''email'', JStr (user_email user)),
                     (''username'', column (user_username user))])]),
              prisma'))"

definition auth_register_between :: "libs \<Rightarrow> env \<Rightarrow> user_table \<Rightarrow> user_table \<Rightarrow> jsval
    \<Rightarrow> response \<times> user_table" where
  "auth_register_between lib e seen prisma body =
     (case (case auth_register_lookup lib e seen body of
              Answered r \<Rightarrow> (r, prisma)
            | Pending email username hashedPassword \<Rightarrow>
                auth_register_insert lib e prisma email username hashedPassword) of
        (Inl err, prisma') \<Rightarrow> (auth_error, prisma')
      | (Inr res, prisma') \<Rightarrow> (res, prisma'))"

definition server_register_lookup :: "libs \<Rightarrow> env \<Rightarrow> user_table option \<Rightarrow> jsval
    \<Rightarrow> lookup" where
  "server_register_lookup lib e prisma body =
     (if body = JUndefined \<or> body = JNull then Answered (Inl TypeError)
      else
        let email = property body ''email'';
            password = property body ''password'';
            username = property body ''username''
        in
          if \<not> truthy email \<or> \<not> truthy password
          then Answered (Inr (server_json lib 400 [(''error'', JStr msg_required)]))
          else
            (case js_less lib (js_length password) 6 of
               Inl err \<Rightarrow> Answered (Inl err)
             | Inr short \<Rightarrow>
                 if short
                 then Answered
                   (Inr (server_json lib 400 [(''error'', JStr msg_short_password)]))
                 else
                   (case prisma of
                      None \<Rightarrow>
                        let token = jwt_sign lib
                              (JObj [(''userId'', JStr ''new-user-id''), (''email'', email)])
                              (secret_or e ''test-secret'') ''24h'' (clock e)
                        in Answered (Inr (server_json lib 201
                              [(''message'', JStr msg_registered_simulated),
                               (''token'', JStr token),
                               (''user'', JObj
                                  [(''id'', JStr ''new-user-id''),
                                   (''email'', email),
                                   (''username'', js_or username (JStr ''nuevo_usuario''))]),
                               (''simulated'', JBool True)]))
                    | Some tbl \<Rightarrow>
                        (case findUnique lib tbl email of
                           Inl err \<Rightarrow> Answered (Inl err)
                         | Inr (Some existingUser) \<Rightarrow>
                             Answered (Inr (server_json lib 400
                               [(''error'', JStr msg_exists)]))
                         | Inr None \<Rightarrow>
                             (case bcrypt_hash lib password 12 (salt e) of
                                Inl err \<Rightarrow> Answered (Inl err)
                              | Inr hashedPassword \<Rightarrow>
                                  Pending email username hashedPassword)))))"

text \<open>With \<^verbatim>\<open>prisma\<close> null, \<^verbatim>\<open>prisma.user.create\<close> would throw a \<open>TypeError\<close>.\<close>

definition server_register_insert :: "libs \<Rightarrow> env \<Rightarrow> user_table option \<Rightarrow> jsval \<Rightarrow> jsval
    \<Rightarrow> string \<Rightarrow> (exn + response) \<times> user_table option" where
  "server_register_insert lib e prisma email username hashedPassword =
     (case prisma of
        None \<Rightarrow> (Inl TypeError, prisma)
      | Some tbl \<Rightarrow>
          (case create lib e tbl email (js_or username JNull) hashedPassword of
             Inl err \<Rightarrow> (Inl err, prisma)
           | Inr (user, tbl') \<Rightarrow>
               let token = jwt_sign lib
                     (JObj [(''userId'', JStr (user_id user)),
                            (''email'', JStr (user_email user))])
                     (secret_or e ''fallback-secret'') ''24h'' (clock e)
               in (Inr (server_json lib 201
                     [(''message'', JStr msg_registered),
                      (''token'', JStr token),
                      (''user'', JObj
                         [(''id'', JStr (user_id user)),
                          (''email'', JStr (user_email user)),
                          (''username'', column (user_username user))])]),
                   Some tbl')))"

definition server_register_between :: "libs \<Rightarrow> env \<Rightarrow> user_table option
    \<Rightarrow> user_table option \<Rightarrow> jsval \<Rightarrow> response \<times> user_table option" where
  "server_register_between lib e seen prisma body =
     (case (case server_register_lookup lib e seen body of
              Answered r \<Rightarrow> (r, prisma)
            | Pending email username hashedPassword \<Rightarrow>
                server_register_insert lib e prisma email username hashedPassword) of
        (Inl err, prisma') \<Rightarrow> (server_error lib err, prisma')
      | (Inr res, prisma') \<Rightarrow> (res, prisma'))"

section \<open>prisma/seed.js\<close>

text \<open>
  The seed script reads the array \<^verbatim>\<open>destinos\<close> of \<^verbatim>\<open>src/data/destinos.js\<close>, a file
  that is not at hand: the array is a parameter, and its entries are JavaScript
  values. The table \<^verbatim>\<open>Destino\<close> has the primary key \<^verbatim>\<open>id\<close> and the unique index
  \<^verbatim>\<open>Destino_slug_key\<close>; nine columns are \<^verbatim>\<open>VARCHAR(191) NOT NULL\<close>, \<^verbatim>\<open>precio\<close> is
  \<^verbatim>\<open>DOUBLE NOT NULL\<close>, \<^verbatim>\<open>gastos\<close> and \<^verbatim>\<open>tours\<close> are \<^verbatim>\<open>JSON NOT NULL\<close>. Its two
  timestamps are set by the database and left out.
\<close>

record destino_row =
  row_id :: string
  row_slug :: string
  row_nombre :: string
  row_ubicacion :: string
  row_tipo :: string
  row_precio :: int
  row_duracion :: string
  row_presupuesto :: string
  row_imagen :: string
  row_descripcion :: string
  row_gastos :: jsval
  row_tours :: jsval

text \<open>
  The \<^verbatim>\<open>data\<close> object of \<^verbatim>\<open>prisma.destino.create\<close>, built from the entry \<open>d\<close>; reading a
  property of \<^verbatim>\<open>undefined\<close> or \<^verbatim>\<open>null\<close> throws.
\<close>

definition destino_data :: "jsval \<Rightarrow> exn + (string \<times> jsval) list" where
  "destino_data d =
     (if d = JUndefined \<or> d = JNull then Inl TypeError
      else Inr
        [(''id'', property d ''id''),
         (''slug'', js_or (property d ''slug'') (property d ''id'')),
         (''nombre'', property d ''nombre''),
         (''ubicacion'', property d ''ubicacion''),
         (''tipo'', property d ''tipo''),
         (''precio'', property d ''precio''),
         (''duracion'', property d ''duracion''),
         (''presupuesto'', property d ''presupuesto''),
         (''imagen'', property d ''imagen''),
         (''descripcion'', property d ''descripcion''),
         (''gastos'', property d ''gastos''),
         (''tours'', property d ''tours'')])"

definition text_columns :: "string list" where
  "text_columns =
     [''id'', ''slug'', ''nombre'', ''ubicacion'', ''tipo'', ''duracion'', ''presupuesto'',
      ''imagen'', ''descripcion'']"

fun text_of :: "jsval \<Rightarrow> string" where
  "text_of (JStr s) = s"
| "text_of v = []"

fun number_of :: "jsval \<Rightarrow> int" where
  "number_of (JNum n) = n"
| "number_of v = 0"

text \<open>
  What the Prisma client accepts as \<^verbatim>\<open>data\<close>: a string for each text column, a number
  for \<^verbatim>\<open>precio\<close>, and a JSON value, neither missing nor \<^verbatim>\<open>null\<close>, for \<^verbatim>\<open>gastos\<close> and
  \<^verbatim>\<open>tours\<close>.
\<close>

definition destino_types :: "(string \<times> jsval) list \<Rightarrow> bool" where
  "destino_types data =
     (list_all (\<lambda>c. typeof (property (JObj data) c) = ''string'') text_columns
      \<and> typeof (property (JObj data) ''precio'') = ''number''
      \<and> property (JObj data) ''gastos'' \<noteq> JUndefined
      \<and> property (JObj data) ''gastos'' \<noteq> JNull
      \<and> property (JObj data) ''tours'' \<noteq> JUndefined
      \<and> property (JObj data) ''tours'' \<noteq> JNull)"

definition destino_widths :: "(string \<times> jsval) list \<Rightarrow> bool" where
  "destino_widths data =
     list_all (\<lambda>c. varchar191 (text_of (property (JObj data) c))) text_columns"

definition destino_create :: "libs \<Rightarrow> destino_row list \<Rightarrow> (string \<times> jsval) list
    \<Rightarrow> exn + destino_row list" where
  "destino_create lib tbl data =
     (if \<not> destino_types data then Inl PrismaValidationError
      else if \<not> destino_widths data then Inl PrismaValueTooLong
      else if collate lib (text_of (property (JObj data) ''id''))
           \<in> set (map (\<lambda>x. collate lib (row_id x)) tbl)
      then Inl (PrismaUniqueConstraint ''PRIMARY'')
      else if collate lib (text_of (property (JObj data) ''slug''))
           \<in> set (map (\<lambda>x. collate lib (row_slug x)) tbl)
      then Inl (PrismaUniqueConstraint ''Destino_slug_key'')
      else Inr (tbl @
        [\<lparr>row_id = text_of (property (JObj data) ''id''),
          row_slug = text_of (property (JObj data) ''slug''),
          row_nombre = text_of (property (JObj data) ''nombre''),
          row_ubicacion = text_of (property (JObj data) ''ubicacion''),
          row_tipo = text_of (property (JObj data) ''tipo''),
          row_precio = number_of (property (JObj data) ''precio''),
          row_duracion = text_of (property (JObj data) ''duracion''),
          row_presupuesto = text_of (property (JObj data) ''presupuesto''),
          row_imagen = text_of (property (JObj data) ''imagen''),
          row_descripcion = text_of (property (JObj data) ''descripcion''),
          row_gastos = property (JObj data) ''gastos'',
          row_tours = property (JObj data) ''tours''\<rparr>]))"

text \<open>The \<^verbatim>\<open>for (const d of destinos)\<close> loop; a rejected insert ends the script.\<close>

fun insert_destinos :: "libs \<Rightarrow> jsval list \<Rightarrow> destino_row list
    \<Rightarrow> exn option \<times> destino_row list" where
  "insert_destinos lib [] tbl = (None, tbl)"
| "insert_destinos lib (d # ds) tbl =
     (case destino_data d of
        Inl err \<Rightarrow> (Some err, tbl)
      | Inr data \<Rightarrow>
          (case destino_create lib tbl data of
             Inl err \<Rightarrow> (Some err, tbl)
           | Inr tbl' \<Rightarrow> insert_destinos lib ds tbl'))"

text \<open>
  \<open>main\<close>: nothing is done for a missing or empty array; otherwise
  \<^verbatim>\<open>deleteMany()\<close> empties the table and the loop fills it. The result is the error
  that ended the script, if any, and the table it leaves.
\<close>

definition main :: "libs \<Rightarrow> jsval list option \<Rightarrow> destino_row list
    \<Rightarrow> exn option \<times> destino_row list" where
  "main lib destinos tbl =
     (case destinos of
        None \<Rightarrow> (None, tbl)
      | Some ds \<Rightarrow>
          if length ds = 0 then (None, tbl)
          else insert_destinos lib ds [])"

section \<open>Sample data\<close>

text \<open>
  Stand-ins for the libraries, used to run the handlers on concrete requests: the
  hash is the salt followed by the password, a token is the email it was signed for,
  the collation is the identity.
\<close>

definition sample_libs :: libs where
  "sample_libs =
     \<lparr>bcrypt_hash_impl = (\<lambda>p rounds slt. slt @ p),
      bcrypt_compare_impl = (\<lambda>p h. Inr (drop (length h - length p) h = p)),
      jwt_sign = (\<lambda>pl secret expires t.
         (case property pl ''email'' of JStr em \<Rightarrow> em | _ \<Rightarrow> [])),
      jwt_decode = (\<lambda>tok. Some (JObj [(''email'', JStr tok)])),
      collate = (\<lambda>s. s),
      to_number_less = (\<lambda>v n. Inr False),
      error_message = (\<lambda>err. []),
      number_text = (\<lambda>n. ''0'')\<rparr>"

definition sample_env :: env where
  "sample_env = \<lparr>JWT_SECRET = None, clock = 0, salt = ''salt'', generated_id = ''u1''\<rparr>"

definition sample_request :: jsval where
  "sample_request = JObj [(''email'', JStr ''a@b.com''), (''password'', JStr ''secret1'')]"

definition sample_user :: user where
  "sample_user =
     \<lparr>user_id = ''u0'', user_email = ''a@b.com'', user_username = None,
      user_password = Some ''saltsecret1''\<rparr>"

definition sample_user_without_password :: user where
  "sample_user_without_password =
     \<lparr>user_id = ''u0'', user_email = ''a@b.com'', user_username = None,
      user_password = None\<rparr>"


definition sample_destino_lima :: jsval where
  "sample_destino_lima =
     JObj [(''id'', JStr ''lima''), (''slug'', JStr ''lima-ciudad''), (''nombre'', JStr ''Lima''),
           (''ubicacion'', JStr ''Lima, Peru''), (''tipo'', JStr ''Urbano''),
           (''precio'', JNum 800), (''duracion'', JStr ''2 dias''),
           (''presupuesto'', JStr ''bajo''), (''imagen'', JStr ''lima.jpg''),
           (''descripcion'', JStr ''Capital''),
           (''gastos'', JObj []), (''tours'', JArr [JStr ''Centro'']) ]"



section \<open>The public user view\<close>

text \<open>
  The spec's public user view of a row: its identifier, email and username. The
  handlers build the object in place; \<open>public_view\<close> is what the spec says it is,
  \<open>user_field\<close> reads it from an answer and \<open>object_keys\<close> is \<^verbatim>\<open>Object.keys\<close>.
  \<open>is_user_view\<close>: an object with exactly the fields id, email and username, none of
  them \<^verbatim>\<open>undefined\<close> (\<^verbatim>\<open>res.json\<close> would drop such a field).
\<close>

definition public_view :: "user \<Rightarrow> jsval" where
  "public_view u =
     JObj [(''id'', JStr (user_id u)),
           (''email'', JStr (user_email u)),
           (''username'', column (user_username u))]"

definition user_field :: "response \<Rightarrow> jsval" where
  "user_field res = property (payload res) ''user''"

definition object_keys :: "jsval \<Rightarrow> string list" where
  "object_keys v = (case v of JObj kvs \<Rightarrow> map fst kvs | _ \<Rightarrow> [])"

definition object_values :: "jsval \<Rightarrow> jsval list" where
  "object_values v = (case v of JObj kvs \<Rightarrow> map snd kvs | _ \<Rightarrow> [])"

definition is_user_view :: "jsval \<Rightarrow> bool" where
  "is_user_view v =
     (object_keys v = [''id'', ''email'', ''username'']
      \<and> JUndefined \<notin> set (object_values v))"

text \<open>
  In server.js: the answer \<open>res\<close> comes of an object handed to \<^verbatim>\<open>res.json\<close> whose
  \<^verbatim>\<open>user\<close> is such a view.
\<close>

definition hands_user_view :: "libs \<Rightarrow> nat \<Rightarrow> response \<Rightarrow> bool" where
  "hands_user_view lib code res =
     (\<exists>obj. res = server_json lib code obj
        \<and> payload res = JStr (stringify lib (JObj obj))
        \<and> is_user_view (property (JObj obj) ''user''))"

section \<open>Values that fit their columns\<close>

text \<open>
  \<open>is_text191\<close>: a string of at most 191 characters. \<open>username_fits\<close>: a username
  that is falsy (the handlers store \<^verbatim>\<open>null\<close> for it) or such a string.
  \<open>well_formed_entry\<close>: a seed entry whose columns have the types and widths the
  migration declares, the slug being falsy (the id then stands for it) or a string.
  \<open>entry_id\<close> and \<open>entry_slug\<close> are the keys of the row an entry asks for, and
  \<open>row_holds r d\<close> says that the row \<open>r\<close> holds, column by column, what the entry
  \<open>d\<close> gives.
\<close>

definition is_text191 :: "jsval \<Rightarrow> bool" where
  "is_text191 v = (case v of JStr s \<Rightarrow> length s \<le> 191 | _ \<Rightarrow> False)"

definition username_fits :: "jsval \<Rightarrow> bool" where
  "username_fits v = (\<not> truthy v \<or> is_text191 v)"




definition row_holds :: "destino_row \<Rightarrow> jsval \<Rightarrow> bool" where
  "row_holds r d =
     (property d ''id'' = JStr (row_id r)
      \<and> (if truthy (property d ''slug'') then property d ''slug'' = JStr (row_slug r)
           else property d ''id'' = JStr (row_slug r))
      \<and> property d ''nombre'' = JStr (row_nombre r)
      \<and> property d ''ubicacion'' = JStr (row_ubicacion r)
      \<and> property d ''tipo'' = JStr (row_tipo r)
      \<and> property d ''precio'' = JNum (row_precio r)
      \<and> property d ''duracion'' = JStr (row_duracion r)
      \<and> property d ''presupuesto'' = JStr (row_presupuesto r)
      \<and> property d ''imagen'' = JStr (row_imagen r)
      \<and> property d ''descripcion'' = JStr (row_descripcion r)
      \<and> property d ''gastos'' = row_gastos r
      \<and> property d ''tours'' = row_tours r)"

section \<open>What the libraries are relied on for\<close>

text \<open>
  Two facts about the libraries that no handler can establish: \<^verbatim>\<open>bcrypt.compare\<close>
  accepts a password against a hash \<^verbatim>\<open>bcrypt.hash\<close> made of it, and decoding a token
  gives back the email of the payload that was signed. \<open>decoded_email\<close> is the
  email in the decoded payload of an answer's token.
\<close>

definition bcrypt_accepts_own_hash :: "libs \<Rightarrow> bool" where
  "bcrypt_accepts_own_hash lib =
     (\<forall>p rounds slt.
        bcrypt_compare_impl lib p (bcrypt_hash_impl lib p rounds slt) = Inr True)"

definition jwt_decodes_email :: "libs \<Rightarrow> bool" where
  "jwt_decodes_email lib =
     (\<forall>pl secret expires t em.
        property pl ''email'' = JStr em \<longrightarrow>
        (\<exists>q. jwt_decode lib (jwt_sign lib pl secret expires t) = Some q
             \<and> property q ''email'' = JStr em))"

definition decoded_email :: "libs \<Rightarrow> response \<Rightarrow> jsval" where
  "decoded_email lib res =
     (case property (payload res) ''token'' of
        JStr tok \<Rightarrow>
          (case jwt_decode lib tok of
             Some q \<Rightarrow> property q ''email''
           | None \<Rightarrow> JUndefined)
      | _ \<Rightarrow> JUndefined)"

section \<open>Records with an email\<close>

text \<open>
  The rows of a table that the database takes to have a given email (it compares by
  the collation), and those whose email is that very string.
\<close>

definition records_with_email :: "libs \<Rightarrow> user_table \<Rightarrow> string \<Rightarrow> user list" where
  "records_with_email lib tbl em =
     filter (\<lambda>u. collate lib (user_email u) = collate lib em) tbl"

definition records_with_same_email :: "user_table \<Rightarrow> string \<Rightarrow> user list" where
  "records_with_same_email tbl em = filter (\<lambda>u. user_email u = em) tbl"

section \<open>Properties\<close>

subsection \<open>The answers of server.js\<close>

text \<open>
  The JSON text of an object starts with a brace, so the replaced \<^verbatim>\<open>res.send\<close> wraps
  nothing: the payload of an answer of server.js is that text, a string.
\<close>

lemma send_json_text: "send (JStr (stringify lib (JObj obj))) = JStr (stringify lib (JObj obj))"
  by (simp add: send_def stringify.simps starts_with_def)

lemma server_json_text:
  "server_json lib code obj = \<lparr>status = code, payload = JStr (stringify lib (JObj obj))\<rparr>"
  by (simp add: server_json_def send_json_text)

lemma status_server_json: "status (server_json lib code obj) = code"
  by (simp add: server_json_def)

lemma status_json: "status (json code obj) = code"
  by (simp add: json_def)

text \<open>The JSON text of a value with every kind of member.\<close>

lemma stringify_sample:
  "stringify sample_libs
     (JObj [(''a'', JArr [JNull, JUndefined, JBool True, JNum 5]), (''b'', JUndefined),
            (''c'', JStr [CHR 0x22, CHR 0x0A, CHR 0x01, CHR 0xF1])])
   = ''{'' @ [CHR 0x22] @ ''a'' @ [CHR 0x22] @ '':[null,null,true,0],''
       @ [CHR 0x22] @ ''c'' @ [CHR 0x22] @ '':''
       @ [CHR 0x22, CHR 0x5C, CHR 0x22, CHR 0x5C] @ ''n'' @ [CHR 0x5C] @ ''u0001''
       @ [CHR 0xF1, CHR 0x22] @ ''}''"
  by (simp add: stringify.simps quote_def escape_char_def hex_digit_def sample_libs_def)

text \<open>What the replaced \<^verbatim>\<open>res.send\<close> wraps and what it passes on.\<close>

lemma send_wraps:
  "send (JStr ''hola'') = JObj [(''message'', JStr ''hola'')]"
  "send (JStr ''[1]'') = JStr ''[1]''"
  "send (JObj obj) = JObj obj"
  by (simp_all add: send_def starts_with_def)

subsection \<open>What the tables reject\<close>

lemma create_rejects:
  "191 < length em \<Longrightarrow> create lib e tbl (JStr em) JNull h = Inl PrismaValueTooLong"
  "191 < length n \<Longrightarrow> create lib e tbl (JStr em) (JStr n) h = Inl PrismaValueTooLong"
  "create lib e tbl (JStr em) (JNum 42) h = Inl PrismaValidationError"
  "create lib e tbl (JNum 42) JNull h = Inl PrismaValidationError"
  by (simp_all add: create_def varchar191_def)

lemma create_rejects_taken:
  assumes "length em \<le> 191" and "length (generated_id e) \<le> 191" and "length h \<le> 191"
  shows "collate lib em \<in> set (map (\<lambda>u. collate lib (user_email u)) tbl)
      \<Longrightarrow> create lib e tbl (JStr em) JNull h = Inl (PrismaUniqueConstraint ''User_email_key'')"
    and "collate lib em \<notin> set (map (\<lambda>u. collate lib (user_email u)) tbl)
      \<Longrightarrow> collate lib (generated_id e) \<in> set (map (\<lambda>u. collate lib (user_id u)) tbl)
      \<Longrightarrow> create lib e tbl (JStr em) JNull h = Inl (PrismaUniqueConstraint ''PRIMARY'')"
  using assms by (simp_all add: create_def varchar191_def)

lemma destino_widths_boundary:
  "destino_widths [(''descripcion'', JStr (replicate 191 (CHR ''a'')))]"
  "\<not> destino_widths [(''descripcion'', JStr (replicate 192 (CHR ''a'')))]"
  by (simp_all add: destino_widths_def text_columns_def varchar191_def)

lemma destino_create_rejects:
  "\<not> destino_types data \<Longrightarrow> destino_create lib tbl data = Inl PrismaValidationError"
  "destino_types data \<Longrightarrow> \<not> destino_widths data
     \<Longrightarrow> destino_create lib tbl data = Inl PrismaValueTooLong"
  by (simp_all add: destino_create_def)

lemma seed_rejects_taken_slug:
  "fst (main sample_libs
     (Some [sample_destino_lima,
            JObj [(''id'', JStr ''callao''), (''slug'', JStr ''lima-ciudad''),
                  (''nombre'', JStr ''Callao''), (''ubicacion'', JStr ''Callao, Peru''),
                  (''tipo'', JStr ''Puerto''), (''precio'', JNum 500),
                  (''duracion'', JStr ''1 dia''), (''presupuesto'', JStr ''bajo''),
                  (''imagen'', JStr ''callao.jpg''), (''descripcion'', JStr ''Puerto''),
                  (''gastos'', JObj []), (''tours'', JArr [])]]) [])
   = Some (PrismaUniqueConstraint ''Destino_slug_key'')"
  by (simp add: main_def destino_data_def destino_create_def destino_types_def
      destino_widths_def text_columns_def varchar191_def js_or_def sample_libs_def
      sample_destino_lima_def)

subsection \<open>Login only reads\<close>

lemma auth_login_try_table: "snd (auth_login_try lib e tbl body) = tbl"
  by (simp add: auth_login_try_def Let_def split: sum.split option.split)

lemma server_login_try_table: "snd (server_login_try lib e prisma body) = prisma"
  by (simp add: server_login_try_def Let_def split: sum.split option.split)

text \<open>
  C8. Login never modifies the user store: whatever the request and whatever the
  answer (success, a missing field, an unknown email, a wrong password, a thrown
  error), the table after \<open>auth_login\<close> and the \<^verbatim>\<open>prisma\<close> state after \<open>server_login\<close>
  are the ones before.
\<close>

theorem login_leaves_store:
  "snd (auth_login lib e tbl body) = tbl \<and> snd (server_login lib e prisma body) = prisma"
proof
  have "snd (auth_login lib e tbl body) = snd (auth_login_try lib e tbl body)"
    by (simp add: auth_login_def split: prod.split sum.split)
  then show "snd (auth_login lib e tbl body) = tbl"
    by (simp add: auth_login_try_table)
next
  have "snd (server_login lib e prisma body) = snd (server_login_try lib e prisma body)"
    by (simp add: server_login_def split: prod.split sum.split)
  then show "snd (server_login lib e prisma body) = prisma"
    by (simp add: server_login_try_table)
qed


theorem login_leaves_store_witness:
  "snd (auth_login sample_libs sample_env [sample_user] sample_request) = [sample_user]
   \<and> snd (server_login sample_libs sample_env (Some [sample_user]) sample_request)
       = Some [sample_user]"
  using login_leaves_store [of sample_libs sample_env "[sample_user]" sample_request
      "Some [sample_user]"]
  by simp

subsection \<open>A password that is not a string\<close>

text \<open>
  C10. The length check of registration does not stop a truthy password that is not
  a string: for a number other than 0 (123456, say) \<^verbatim>\<open>password.length\<close> is
  \<^verbatim>\<open>undefined\<close>, the comparison with 6 is false, and with an email that is a non-empty
  string matching no row the \<^verbatim>\<open>try\<close> block of either implementation ends in the
  error that \<^verbatim>\<open>bcrypt.hash\<close> throws for a number: control reached the hashing step.
  The answer is then 500.
\<close>

theorem number_password_reaches_hash:
  assumes "property body ''email'' = JStr em" and "em \<noteq> []"
    and "property body ''password'' = JNum n" and "n \<noteq> 0"
    and "findUnique lib tbl (JStr em) = Inr None"
  shows "truthy (JNum n) \<and> typeof (JNum n) \<noteq> ''string''
    \<and> js_less lib (js_length (JNum n)) 6 = Inr False
    \<and> auth_register_try lib e tbl body
        = (Inl (BcryptIllegalArguments ''number'' ''number''), tbl)
    \<and> server_register_try lib e (Some tbl) body
        = (Inl (BcryptIllegalArguments ''number'' ''number''), Some tbl)
    \<and> status (fst (auth_register lib e tbl body)) = 500
    \<and> status (fst (server_register lib e (Some tbl) body)) = 500"
proof -
  have body: "body \<noteq> JUndefined" "body \<noteq> JNull"
    using assms(1) by auto
  have chk: "js_less lib (js_length (JNum n)) 6 = Inr False"
    by (simp add: js_less_def)
  have hash: "bcrypt_hash lib (JNum n) 12 (salt e)
      = Inl (BcryptIllegalArguments ''number'' ''number'')"
    by (simp add: bcrypt_hash_def)
  have a: "auth_register_try lib e tbl body
      = (Inl (BcryptIllegalArguments ''number'' ''number''), tbl)"
    using assms body chk hash by (simp add: auth_register_try_def)
  have s: "server_register_try lib e (Some tbl) body
      = (Inl (BcryptIllegalArguments ''number'' ''number''), Some tbl)"
    using assms body chk hash by (simp add: server_register_try_def)
  show ?thesis
    using a s chk assms(4)
    by (simp add: auth_register_def server_register_def auth_error_def server_error_def
        status_json status_server_json)
qed

theorem number_password_reaches_hash_witness:
  "truthy (JNum 123456) \<and> typeof (JNum 123456) \<noteq> ''string''
    \<and> js_less sample_libs (js_length (JNum 123456)) 6 = Inr False
    \<and> auth_register_try sample_libs sample_env []
          (JObj [(''email'', JStr ''a@b.com''), (''password'', JNum 123456)])
        = (Inl (BcryptIllegalArguments ''number'' ''number''), [])
    \<and> server_register_try sample_libs sample_env (Some [])
          (JObj [(''email'', JStr ''a@b.com''), (''password'', JNum 123456)])
        = (Inl (BcryptIllegalArguments ''number'' ''number''), Some [])
    \<and> status (fst (auth_register sample_libs sample_env []
          (JObj [(''email'', JStr ''a@b.com''), (''password'', JNum 123456)]))) = 500
    \<and> status (fst (server_register sample_libs sample_env (Some [])
          (JObj [(''email'', JStr ''a@b.com''), (''password'', JNum 123456)]))) = 500"
  using number_password_reaches_hash
    [of "JObj [(''email'', JStr ''a@b.com''), (''password'', JNum 123456)]"
      "''a@b.com''" 123456 sample_libs "[]" sample_env]
  by (simp add: findUnique_def)

text \<open>
  The check does not only look at strings: an array of fewer than 6 elements has a
  \<^verbatim>\<open>length\<close> below 6 and is rejected like a short string.
\<close>

lemma register_short_array:
  assumes "truthy (property body ''email'')" and "property body ''password'' = JArr xs"
    and "length xs < 6"
  shows "auth_register lib e tbl body
      = (json 400 [(''error'', JStr msg_short_password)], tbl)
    \<and> server_register lib e prisma body
      = (server_json lib 400 [(''error'', JStr msg_short_password)], prisma)"
proof -
  have body: "body \<noteq> JUndefined" "body \<noteq> JNull"
    using assms(2) by auto
  have chk: "js_less lib (js_length (JArr xs)) 6 = Inr True"
    using assms(3) by (simp add: js_less_def)
  show ?thesis
    using assms(1,2) body chk
    by (simp add: auth_register_def auth_register_try_def server_register_def
        server_register_try_def)
qed

subsection \<open>The length check of registration\<close>

lemma msg_exists_neq: "msg_exists \<noteq> msg_short_password" "msg_exists \<noteq> msg_required"
  by (simp_all add: msg_exists_def msg_short_password_def msg_required_def)

lemma server_json_eq:
  "server_json lib code obj = server_json lib code' obj'
     \<longleftrightarrow> code = code' \<and> stringify lib (JObj obj) = stringify lib (JObj obj')"
  by (auto simp add: server_json_text)

lemma error_text_exists_neq:
  "stringify lib (JObj [(''error'', JStr msg_exists)])
     \<noteq> stringify lib (JObj [(''error'', JStr msg_short_password)])"
  "stringify lib (JObj [(''error'', JStr msg_exists)])
     \<noteq> stringify lib (JObj [(''error'', JStr msg_required)])"
  by (simp_all add: stringify.simps quote_def escape_char_def msg_exists_def
      msg_short_password_def msg_required_def)

lemma auth_register_not_validation:
  assumes "truthy (property body ''email'')" and "property body ''password'' = JStr p"
    and "6 \<le> length p"
  shows "fst (auth_register lib e tbl body) \<noteq> json 400 [(''error'', JStr msg_required)]
    \<and> fst (auth_register lib e tbl body) \<noteq> json 400 [(''error'', JStr msg_short_password)]"
proof -
  have body: "body \<noteq> JUndefined" "body \<noteq> JNull"
    using assms(2) by auto
  have chk: "js_less lib (js_length (JStr p)) 6 = Inr False"
    using assms(3) by (simp add: js_less_def)
  have pw: "truthy (JStr p)"
    using assms(3) by auto
  show ?thesis
    using assms(1,2) body chk pw
    by (auto simp add: auth_register_def auth_register_try_def auth_error_def json_def
        msg_exists_neq Let_def split: sum.splits option.splits prod.splits)
qed

lemma server_register_not_validation:
  assumes "truthy (property body ''email'')" and "property body ''password'' = JStr p"
    and "6 \<le> length p"
  shows "fst (server_register lib e prisma body)
      \<noteq> server_json lib 400 [(''error'', JStr msg_required)]
    \<and> fst (server_register lib e prisma body)
      \<noteq> server_json lib 400 [(''error'', JStr msg_short_password)]"
proof -
  have body: "body \<noteq> JUndefined" "body \<noteq> JNull"
    using assms(2) by auto
  have chk: "js_less lib (js_length (JStr p)) 6 = Inr False"
    using assms(3) by (simp add: js_less_def)
  have pw: "truthy (JStr p)"
    using assms(3) by auto
  show ?thesis
    using assms(1,2) body chk pw
    by (auto simp add: server_register_def server_register_try_def server_error_def
        server_json_eq error_text_exists_neq Let_def
        split: sum.splits option.splits prod.splits)
qed

lemma register_short_password:
  assumes "truthy (property body ''email'')" and "property body ''password'' = JStr p"
    and "p \<noteq> []" and "length p < 6"
  shows "auth_register lib e tbl body
      = (json 400 [(''error'', JStr msg_short_password)], tbl)
    \<and> server_register lib e prisma body
      = (server_json lib 400 [(''error'', JStr msg_short_password)], prisma)"
proof -
  have body: "body \<noteq> JUndefined" "body \<noteq> JNull"
    using assms(2) by auto
  have chk: "js_less lib (js_length (JStr p)) 6 = Inr True"
    using assms(4) by (simp add: js_less_def)
  show ?thesis
    using assms(1,2,3) body chk
    by (simp add: auth_register_def auth_register_try_def server_register_def
        server_register_try_def)
qed

text \<open>
  C5. With an email present, a registration whose password is a string of length 5
  is answered 400 with the text about the six characters, by both implementations
  and in every state, and the state is left as it was; a string of length 6 passes
  the length check (\<^verbatim>\<open>password.length < 6\<close> is false) and the answer is not that
  validation error.
\<close>

theorem register_password_boundary:
  assumes "truthy (property body ''email'')" and "property body ''password'' = JStr p"
  shows "(length p = 5 \<longrightarrow>
            auth_register lib e tbl body
              = (json 400 [(''error'', JStr msg_short_password)], tbl)
          \<and> server_register lib e prisma body
              = (server_json lib 400 [(''error'', JStr msg_short_password)], prisma))
       \<and> (length p = 6 \<longrightarrow>
            js_less lib (js_length (JStr p)) 6 = Inr False
          \<and> fst (auth_register lib e tbl body)
              \<noteq> json 400 [(''error'', JStr msg_short_password)]
          \<and> fst (server_register lib e prisma body)
              \<noteq> server_json lib 400 [(''error'', JStr msg_short_password)])"
proof (intro conjI impI)
  assume five: "length p = 5"
  then have "p \<noteq> []" "length p < 6" by auto
  from register_short_password [OF assms this]
  show "auth_register lib e tbl body
      = (json 400 [(''error'', JStr msg_short_password)], tbl)"
    and "server_register lib e prisma body
      = (server_json lib 400 [(''error'', JStr msg_short_password)], prisma)"
    by simp_all
next
  assume six: "length p = 6"
  then have ge: "6 \<le> length p" by simp
  show "js_less lib (js_length (JStr p)) 6 = Inr False"
    using six by (simp add: js_less_def)
  show "fst (auth_register lib e tbl body)
      \<noteq> json 400 [(''error'', JStr msg_short_password)]"
    using auth_register_not_validation [OF assms ge] by simp
  show "fst (server_register lib e prisma body)
      \<noteq> server_json lib 400 [(''error'', JStr msg_short_password)]"
    using server_register_not_validation [OF assms ge] by simp
qed

theorem register_password_boundary_witness:
  "auth_register sample_libs sample_env []
       (JObj [(''email'', JStr ''a@b.com''), (''password'', JStr ''12345'')])
     = (json 400 [(''error'', JStr msg_short_password)], [])
   \<and> server_register sample_libs sample_env None
       (JObj [(''email'', JStr ''a@b.com''), (''password'', JStr ''12345'')])
     = (server_json sample_libs 400 [(''error'', JStr msg_short_password)], None)
   \<and> js_less sample_libs (js_length (JStr ''123456'')) 6 = Inr False
   \<and> fst (auth_register sample_libs sample_env []
       (JObj [(''email'', JStr ''a@b.com''), (''password'', JStr ''123456'')]))
     \<noteq> json 400 [(''error'', JStr msg_short_password)]
   \<and> fst (server_register sample_libs sample_env None
       (JObj [(''email'', JStr ''a@b.com''), (''password'', JStr ''123456'')]))
     \<noteq> server_json sample_libs 400 [(''error'', JStr msg_short_password)]"
  using register_password_boundary
    [of "JObj [(''email'', JStr ''a@b.com''), (''password'', JStr ''12345'')]"
      "''12345''" sample_libs sample_env "[]" None]
    register_password_boundary
    [of "JObj [(''email'', JStr ''a@b.com''), (''password'', JStr ''123456'')]"
      "''123456''" sample_libs sample_env "[]" None]
  by simp

subsection \<open>The two recover routes\<close>

text \<open>
  C4. The recover routes of the two implementations are not equivalent. For a request
  whose email is a non-empty string matching no row, routes/auth.js answers 404 (user
  not found), while server.js answers 200 with the confirmation, the email and
  \<^verbatim>\<open>simulated: true\<close> (as JSON text) whatever its \<^verbatim>\<open>prisma\<close> state is, so whether or
  not the user exists; the two answers differ.
\<close>

theorem recover_variants_differ:
  assumes "property body ''email'' = JStr em" and "em \<noteq> []"
    and "findUnique lib tbl (JStr em) = Inr None"
  shows "auth_recover lib tbl body = (json 404 [(''error'', JStr msg_not_found)], tbl)
    \<and> server_recover lib prisma body
        = (server_json lib 200 [(''message'', JStr msg_recover), (''email'', JStr em),
                     (''simulated'', JBool True)], prisma)
    \<and> fst (auth_recover lib tbl body) \<noteq> fst (server_recover lib prisma body)"
proof -
  have body: "body \<noteq> JUndefined" "body \<noteq> JNull"
    using assms(1) by auto
  have a: "auth_recover lib tbl body = (json 404 [(''error'', JStr msg_not_found)], tbl)"
    using assms body by (simp add: auth_recover_def auth_recover_try_def)
  have s: "server_recover lib prisma body
        = (server_json lib 200 [(''message'', JStr msg_recover), (''email'', JStr em),
                     (''simulated'', JBool True)], prisma)"
    using assms body by (simp add: server_recover_def server_recover_try_def)
  show ?thesis
    unfolding a s by (simp add: json_def server_json_text)
qed

theorem recover_variants_differ_witness:
  "auth_recover sample_libs [] sample_request
      = (json 404 [(''error'', JStr msg_not_found)], [])
    \<and> server_recover sample_libs (Some []) sample_request
        = (server_json sample_libs 200
             [(''message'', JStr msg_recover), (''email'', JStr ''a@b.com''),
                     (''simulated'', JBool True)], Some [])
    \<and> fst (auth_recover sample_libs [] sample_request)
        \<noteq> fst (server_recover sample_libs (Some []) sample_request)"
proof -
  have email: "property sample_request ''email'' = JStr ''a@b.com''"
    by (simp add: sample_request_def)
  have present: "''a@b.com'' \<noteq> []"
    by simp
  have unknown: "findUnique sample_libs [] (JStr ''a@b.com'') = Inr None"
    by (simp add: findUnique_def)
  show ?thesis
    by (rule recover_variants_differ [OF email present unknown])
qed

subsection \<open>server.js without a database\<close>




subsection \<open>Login with a wrong password\<close>

text \<open>
  A known email with a password that the stored hash does not match: when both are
  strings and \<^verbatim>\<open>bcrypt.compare\<close> answers false, both implementations answer 400
  with the text for a wrong password.
\<close>

lemma login_wrong_password:
  assumes "property body ''email'' = JStr em" and "em \<noteq> []"
    and "property body ''password'' = JStr p" and "p \<noteq> []"
    and "findUnique lib tbl (JStr em) = Inr (Some u)"
    and "user_password u = Some h"
    and "bcrypt_compare_impl lib p h = Inr False"
  shows "auth_login lib e tbl body = (json 400 [(''error'', JStr msg_wrong_password)], tbl)
    \<and> server_login lib e (Some tbl) body
        = (server_json lib 400 [(''error'', JStr msg_wrong_password)], Some tbl)"
proof -
  have body: "body \<noteq> JUndefined" "body \<noteq> JNull"
    using assms(1) by auto
  have cmp: "bcrypt_compare lib (JStr p) (user_password u) = Inr False"
    using assms(6,7) by (simp add: bcrypt_compare_def)
  show ?thesis
    using assms(1-5) body cmp
    by (simp add: auth_login_def auth_login_try_def server_login_def server_login_try_def)
qed

text \<open>
  C2. A login with a known email and a password that does not match must be answered
  400 and never 500, also for a row whose stored hash is null. For such a row the
  code does otherwise: \<^verbatim>\<open>bcrypt.compare(password, null)\<close> throws inside the \<^verbatim>\<open>try\<close>
  block, and the \<^verbatim>\<open>catch\<close> block of either implementation answers 500.
\<close>

theorem login_null_hash_is_server_error:
  assumes "property body ''email'' = JStr em" and "em \<noteq> []"
    and "truthy (property body ''password'')"
    and "findUnique lib tbl (JStr em) = Inr (Some u)"
    and "user_password u = None"
  shows "auth_login_try lib e tbl body
        = (Inl (BcryptIllegalArguments (typeof (property body ''password'')) ''object''), tbl)
    \<and> server_login_try lib e (Some tbl) body
        = (Inl (BcryptIllegalArguments (typeof (property body ''password'')) ''object''),
           Some tbl)
    \<and> status (fst (auth_login lib e tbl body)) = 500
    \<and> status (fst (server_login lib e (Some tbl) body)) = 500"
proof -
  have body: "body \<noteq> JUndefined" "body \<noteq> JNull"
    using assms(1) by auto
  have cmp: "bcrypt_compare lib (property body ''password'') (user_password u)
      = Inl (BcryptIllegalArguments (typeof (property body ''password'')) ''object'')"
    using assms(5) by (simp add: bcrypt_compare_def split: jsval.split)
  have a: "auth_login_try lib e tbl body
      = (Inl (BcryptIllegalArguments (typeof (property body ''password'')) ''object''), tbl)"
    using assms(1-4) body cmp by (simp add: auth_login_try_def)
  have s: "server_login_try lib e (Some tbl) body
      = (Inl (BcryptIllegalArguments (typeof (property body ''password'')) ''object''),
         Some tbl)"
    using assms(1-4) body cmp by (simp add: server_login_try_def)
  show ?thesis
    using a s
    by (simp add: auth_login_def server_login_def auth_error_def server_error_def
        status_json status_server_json)
qed

theorem login_null_hash_is_server_error_witness:
  "auth_login_try sample_libs sample_env [sample_user_without_password] sample_request
        = (Inl (BcryptIllegalArguments (typeof (property sample_request ''password''))
             ''object''), [sample_user_without_password])
    \<and> server_login_try sample_libs sample_env (Some [sample_user_without_password])
          sample_request
        = (Inl (BcryptIllegalArguments (typeof (property sample_request ''password''))
             ''object''), Some [sample_user_without_password])
    \<and> status (fst (auth_login sample_libs sample_env [sample_user_without_password]
          sample_request)) = 500
    \<and> status (fst (server_login sample_libs sample_env
          (Some [sample_user_without_password]) sample_request)) = 500"
proof -
  have email: "property sample_request ''email'' = JStr ''a@b.com''"
    by (simp add: sample_request_def)
  have present: "''a@b.com'' \<noteq> []"
    by simp
  have password: "truthy (property sample_request ''password'')"
    by (simp add: sample_request_def)
  have found: "findUnique sample_libs [sample_user_without_password] (JStr ''a@b.com'')
      = Inr (Some sample_user_without_password)"
    by (simp add: findUnique_def sample_libs_def sample_user_without_password_def)
  have null: "user_password sample_user_without_password = None"
    by (simp add: sample_user_without_password_def)
  show ?thesis
    by (rule login_null_hash_is_server_error [OF email present password found null])
qed

subsection \<open>The user object of a successful answer\<close>

lemma column_defined: "column c \<noteq> JUndefined" "JUndefined \<noteq> column c"
  by (simp_all add: column_def split: option.split)

lemma public_view_keys:
  "object_keys (public_view u) = [''id'', ''email'', ''username'']
   \<and> JUndefined \<notin> set (object_values (public_view u))"
  by (simp add: public_view_def object_keys_def object_values_def column_defined)

lemma find_in_set: "find P xs = Some x \<Longrightarrow> x \<in> set xs"
  by (induction xs) (auto split: if_splits)

lemma findUnique_in_table: "findUnique lib tbl email = Inr (Some u) \<Longrightarrow> u \<in> set tbl"
  by (auto simp add: findUnique_def dest: find_in_set split: jsval.splits)

lemma create_appends:
  "create lib e tbl email username h = Inr (u, tbl') \<Longrightarrow> tbl' = tbl @ [u]"
  by (cases email) (auto simp add: create_def Let_def split: if_splits)

lemma auth_login_try_view:
  assumes "auth_login_try lib e tbl body = (Inr res, tbl')" and "status res = 200"
  shows "\<exists>u\<in>set tbl. user_field res = public_view u"
  using assms
  by (auto simp add: auth_login_try_def json_def Let_def user_field_def public_view_def
      dest: findUnique_in_table
      split: if_splits sum.splits option.splits)

lemma auth_register_try_view:
  assumes "auth_register_try lib e tbl body = (Inr res, tbl')" and "status res = 201"
  shows "\<exists>u\<in>set tbl'. user_field res = public_view u"
  using assms
  by (auto simp add: auth_register_try_def json_def Let_def user_field_def public_view_def
      dest!: create_appends
      split: if_splits sum.splits option.splits)


lemma public_view_is_user_view: "is_user_view (public_view u)"
  by (simp add: is_user_view_def public_view_def object_keys_def object_values_def
      column_defined)

lemma truthy_defined: "truthy v \<Longrightarrow> v \<noteq> JUndefined \<and> JUndefined \<noteq> v"
  by auto

lemma js_or_defined: "b \<noteq> JUndefined \<Longrightarrow> JUndefined \<noteq> js_or a b"
  by (cases a) (auto simp add: js_or_def)

lemma user_field_server_json: "user_field (server_json lib code obj) = JUndefined"
  by (simp add: user_field_def server_json_text)

lemma undefined_is_no_user_view: "\<not> is_user_view JUndefined"
  by (simp add: is_user_view_def object_keys_def)

lemma hands_user_viewI:
  "is_user_view (property (JObj obj) ''user'')
     \<Longrightarrow> hands_user_view lib code (server_json lib code obj)"
  by (auto simp add: hands_user_view_def server_json_text)

lemma server_login_try_handed:
  assumes "server_login_try lib e prisma body = (Inr res, prisma')" and "status res = 200"
  shows "hands_user_view lib 200 res"
  using assms
  by (auto simp add: server_login_try_def Let_def status_server_json
      is_user_view_def object_keys_def object_values_def column_defined
      intro!: hands_user_viewI
      split: if_splits sum.splits option.splits)

lemma server_register_try_handed:
  assumes "server_register_try lib e prisma body = (Inr res, prisma')"
    and "status res = 201"
  shows "hands_user_view lib 201 res"
  using assms
  by (auto simp add: server_register_try_def Let_def status_server_json
      is_user_view_def object_keys_def object_values_def column_defined js_or_defined
      dest: truthy_defined
      intro!: hands_user_viewI
      split: if_splits sum.splits option.splits prod.splits)

lemma auth_login_result:
  assumes "status (fst (auth_login lib e tbl body)) = 200"
  shows "\<exists>tbl'. auth_login_try lib e tbl body = (Inr (fst (auth_login lib e tbl body)), tbl')
    \<and> snd (auth_login lib e tbl body) = tbl'"
proof (cases "auth_login_try lib e tbl body")
  case (Pair r t)
  then show ?thesis
    using assms by (cases r) (simp_all add: auth_login_def auth_error_def json_def)
qed

lemma auth_register_result:
  assumes "status (fst (auth_register lib e tbl body)) = 201"
  shows "\<exists>tbl'. auth_register_try lib e tbl body
        = (Inr (fst (auth_register lib e tbl body)), tbl')
    \<and> snd (auth_register lib e tbl body) = tbl'"
proof (cases "auth_register_try lib e tbl body")
  case (Pair r t)
  then show ?thesis
    using assms by (cases r) (simp_all add: auth_register_def auth_error_def json_def)
qed

lemma server_login_result:
  assumes "status (fst (server_login lib e prisma body)) = 200"
  shows "\<exists>prisma'. server_login_try lib e prisma body
        = (Inr (fst (server_login lib e prisma body)), prisma')
    \<and> snd (server_login lib e prisma body) = prisma'"
proof (cases "server_login_try lib e prisma body")
  case (Pair r t)
  then show ?thesis
    using assms
    by (cases r) (simp_all add: server_login_def server_error_def status_server_json)
qed

lemma server_register_result:
  assumes "status (fst (server_register lib e prisma body)) = 201"
  shows "\<exists>prisma'. server_register_try lib e prisma body
        = (Inr (fst (server_register lib e prisma body)), prisma')
    \<and> snd (server_register lib e prisma body) = prisma'"
proof (cases "server_register_try lib e prisma body")
  case (Pair r t)
  then show ?thesis
    using assms
    by (cases r) (simp_all add: server_register_def server_error_def status_server_json)
qed

text \<open>
  In routes/auth.js the \<^verbatim>\<open>user\<close> object of a login answered 200 or a registration
  answered 201 is the public view of a row of the table (the row found, or the row
  just created): exactly the fields id, email and username, none of them
  \<^verbatim>\<open>undefined\<close>, and no field for the stored password hash.
\<close>

lemma auth_public_user_view:
  "(status (fst (auth_login lib e tbl body)) = 200 \<longrightarrow>
      is_user_view (user_field (fst (auth_login lib e tbl body)))
      \<and> (\<exists>u\<in>set tbl. user_field (fst (auth_login lib e tbl body)) = public_view u))
   \<and> (status (fst (auth_register lib e tbl body)) = 201 \<longrightarrow>
      is_user_view (user_field (fst (auth_register lib e tbl body)))
      \<and> (\<exists>u\<in>set (snd (auth_register lib e tbl body)).
            user_field (fst (auth_register lib e tbl body)) = public_view u))"
proof (intro conjI impI)
  assume ok: "status (fst (auth_login lib e tbl body)) = 200"
  from auth_login_result [OF ok] obtain tbl' where
    "auth_login_try lib e tbl body = (Inr (fst (auth_login lib e tbl body)), tbl')"
    by blast
  from auth_login_try_view [OF this ok]
  show "\<exists>u\<in>set tbl. user_field (fst (auth_login lib e tbl body)) = public_view u" .
  then show "is_user_view (user_field (fst (auth_login lib e tbl body)))"
    using public_view_is_user_view by auto
next
  assume ok: "status (fst (auth_register lib e tbl body)) = 201"
  from auth_register_result [OF ok] obtain tbl' where
    body_result: "auth_register_try lib e tbl body
      = (Inr (fst (auth_register lib e tbl body)), tbl')"
    and tbl': "snd (auth_register lib e tbl body) = tbl'"
    by blast
  from auth_register_try_view [OF body_result ok] tbl'
  show "\<exists>u\<in>set (snd (auth_register lib e tbl body)).
      user_field (fst (auth_register lib e tbl body)) = public_view u"
    by simp
  then show "is_user_view (user_field (fst (auth_register lib e tbl body)))"
    using public_view_is_user_view by auto
qed

text \<open>
  C7. A login answered 200 or a registration answered 201 must carry a \<^verbatim>\<open>user\<close> object
  of exactly the fields id, email and username. In server.js the handler hands
  \<^verbatim>\<open>res.json\<close> an object whose \<^verbatim>\<open>user\<close> is of that shape, but the code does otherwise
  with it: the replaced \<^verbatim>\<open>res.send\<close> stringifies its JSON text once more, the answer
  is that text as a string, and it has no \<^verbatim>\<open>user\<close> object at all.
\<close>

theorem server_answer_has_no_user_object:
  "(status (fst (server_login lib e prisma body)) = 200 \<longrightarrow>
      hands_user_view lib 200 (fst (server_login lib e prisma body))
      \<and> user_field (fst (server_login lib e prisma body)) = JUndefined
      \<and> \<not> is_user_view (user_field (fst (server_login lib e prisma body))))
   \<and> (status (fst (server_register lib e prisma body)) = 201 \<longrightarrow>
      hands_user_view lib 201 (fst (server_register lib e prisma body))
      \<and> user_field (fst (server_register lib e prisma body)) = JUndefined
      \<and> \<not> is_user_view (user_field (fst (server_register lib e prisma body))))"
proof (intro conjI impI)
  assume ok: "status (fst (server_login lib e prisma body)) = 200"
  from server_login_result [OF ok] obtain prisma' where
    "server_login_try lib e prisma body
      = (Inr (fst (server_login lib e prisma body)), prisma')"
    by blast
  from server_login_try_handed [OF this ok]
  show handed: "hands_user_view lib 200 (fst (server_login lib e prisma body))" .
  then show "user_field (fst (server_login lib e prisma body)) = JUndefined"
    by (auto simp add: hands_user_view_def user_field_def)
  then show "\<not> is_user_view (user_field (fst (server_login lib e prisma body)))"
    by (simp add: undefined_is_no_user_view)
next
  assume ok: "status (fst (server_register lib e prisma body)) = 201"
  from server_register_result [OF ok] obtain prisma' where
    "server_register_try lib e prisma body
      = (Inr (fst (server_register lib e prisma body)), prisma')"
    by blast
  from server_register_try_handed [OF this ok]
  show handed: "hands_user_view lib 201 (fst (server_register lib e prisma body))" .
  then show "user_field (fst (server_register lib e prisma body)) = JUndefined"
    by (auto simp add: hands_user_view_def user_field_def)
  then show "\<not> is_user_view (user_field (fst (server_register lib e prisma body)))"
    by (simp add: undefined_is_no_user_view)
qed

lemma sample_login_status:
  "status (fst (auth_login sample_libs sample_env [sample_user] sample_request)) = 200"
  "status (fst (server_login sample_libs sample_env (Some [sample_user]) sample_request))
     = 200"
  by (simp_all add: auth_login_def auth_login_try_def server_login_def server_login_try_def
      findUnique_def bcrypt_compare_def sample_libs_def sample_user_def sample_request_def
      status_json status_server_json Let_def)

lemma sample_register_status:
  "status (fst (auth_register sample_libs sample_env [] sample_request)) = 201"
  "status (fst (server_register sample_libs sample_env (Some []) sample_request)) = 201"
  by (simp_all add: auth_register_def auth_register_try_def server_register_def
      server_register_try_def findUnique_def bcrypt_hash_def create_def js_less_def js_or_def
      varchar191_def sample_libs_def sample_env_def sample_request_def status_json
      status_server_json Let_def)

theorem server_answer_has_no_user_object_witness:
  "hands_user_view sample_libs 200
     (fst (server_login sample_libs sample_env (Some [sample_user]) sample_request))
   \<and> user_field (fst (server_login sample_libs sample_env (Some [sample_user])
       sample_request)) = JUndefined
   \<and> \<not> is_user_view (user_field (fst (server_login sample_libs sample_env
       (Some [sample_user]) sample_request)))
   \<and> hands_user_view sample_libs 201
     (fst (server_register sample_libs sample_env (Some []) sample_request))
   \<and> user_field (fst (server_register sample_libs sample_env (Some [])
       sample_request)) = JUndefined
   \<and> \<not> is_user_view (user_field (fst (server_register sample_libs sample_env
       (Some []) sample_request)))"
  using server_answer_has_no_user_object [of sample_libs sample_env "Some [sample_user]"
      sample_request]
    server_answer_has_no_user_object [of sample_libs sample_env "Some []" sample_request]
    sample_login_status sample_register_status
  by blast

subsection \<open>Registration, then login\<close>

lemma sample_libs_sound: "bcrypt_accepts_own_hash sample_libs" "jwt_decodes_email sample_libs"
  by (simp_all add: bcrypt_accepts_own_hash_def jwt_decodes_email_def sample_libs_def)

lemma find_append_new:
  "find P xs = None \<Longrightarrow> P x \<Longrightarrow> find P (xs @ [x]) = Some x"
  by (induction xs) (auto split: if_splits)

lemma findUnique_None_set:
  "findUnique lib tbl (JStr em) = Inr None \<Longrightarrow>
     collate lib em \<notin> set (map (\<lambda>u. collate lib (user_email u)) tbl)"
  by (auto simp add: findUnique_def find_None_iff)

lemma findUnique_append_new:
  assumes "findUnique lib tbl (JStr em) = Inr None" and "user_email u = em"
  shows "findUnique lib (tbl @ [u]) (JStr em) = Inr (Some u)"
  using assms by (simp add: findUnique_def find_append_new)

lemma username_fits_cases:
  assumes "username_fits username"
  shows "js_or username JNull = JNull
    \<or> (\<exists>n. js_or username JNull = JStr n \<and> length n \<le> 191)"
  using assms
  by (cases username) (auto simp add: username_fits_def is_text191_def js_or_def)

lemma create_new:
  assumes "findUnique lib tbl (JStr em) = Inr None"
    and "collate lib (generated_id e) \<notin> set (map (\<lambda>u. collate lib (user_id u)) tbl)"
    and "username_fits username"
    and "length em \<le> 191" and "length (generated_id e) \<le> 191" and "length h \<le> 191"
  shows "\<exists>u. user_email u = em \<and> user_password u = Some h
    \<and> create lib e tbl (JStr em) (js_or username JNull) h = Inr (u, tbl @ [u])"
  using username_fits_cases [OF assms(3)] findUnique_None_set [OF assms(1)] assms(2,4,5,6)
  by (auto simp add: create_def Let_def varchar191_def)


lemma register_new:
  assumes "property body ''email'' = JStr em" and "em \<noteq> []" and "length em \<le> 191"
    and "property body ''password'' = JStr p" and "6 \<le> length p"
    and "username_fits (property body ''username'')"
    and "findUnique lib tbl (JStr em) = Inr None"
    and "collate lib (generated_id e) \<notin> set (map (\<lambda>u. collate lib (user_id u)) tbl)"
    and "length (generated_id e) \<le> 191"
    and "length (bcrypt_hash_impl lib p 12 (salt e)) \<le> 191"
  shows "\<exists>u. user_email u = em
      \<and> user_password u = Some (bcrypt_hash_impl lib p 12 (salt e))
      \<and> status (fst (auth_register lib e tbl body)) = 201
      \<and> snd (auth_register lib e tbl body) = tbl @ [u]
      \<and> status (fst (server_register lib e (Some tbl) body)) = 201
      \<and> snd (server_register lib e (Some tbl) body) = Some (tbl @ [u])"
proof -
  have body: "body \<noteq> JUndefined" "body \<noteq> JNull"
    using assms(1) by auto
  have chk: "js_less lib (js_length (JStr p)) 6 = Inr False"
    using assms(5) by (simp add: js_less_def)
  have pw: "p \<noteq> []"
    using assms(5) by auto
  have hash: "bcrypt_hash lib (JStr p) 12 (salt e) = Inr (bcrypt_hash_impl lib p 12 (salt e))"
    by (simp add: bcrypt_hash_def)
  from create_new [OF assms(7,8,6,3,9,10)] obtain u where
    u: "user_email u = em" "user_password u = Some (bcrypt_hash_impl lib p 12 (salt e))"
    and made: "create lib e tbl (JStr em) (js_or (property body ''username'') JNull)
        (bcrypt_hash_impl lib p 12 (salt e)) = Inr (u, tbl @ [u])"
    by blast
  have a: "status (fst (auth_register lib e tbl body)) = 201
      \<and> snd (auth_register lib e tbl body) = tbl @ [u]"
    using assms(1,2,4,7) body chk pw hash made
    by (simp add: auth_register_def auth_register_try_def status_json Let_def)
  have s: "status (fst (server_register lib e (Some tbl) body)) = 201
      \<and> snd (server_register lib e (Some tbl) body) = Some (tbl @ [u])"
    using assms(1,2,4,7) body chk pw hash made
    by (simp add: server_register_def server_register_try_def status_server_json Let_def)
  show ?thesis
    using a s u by blast
qed

lemma decoded_email_of_token:
  assumes "jwt_decodes_email lib"
    and "property (payload res) ''token'' = JStr (jwt_sign lib pl secret expires t)"
    and "property pl ''email'' = JStr em"
  shows "decoded_email lib res = JStr em"
proof -
  from assms(1,3) obtain q where
    "jwt_decode lib (jwt_sign lib pl secret expires t) = Some q"
    and "property q ''email'' = JStr em"
    unfolding jwt_decodes_email_def by blast
  then show ?thesis
    using assms(2) by (simp add: decoded_email_def)
qed

lemma login_known:
  assumes "jwt_decodes_email lib"
    and "property body ''email'' = JStr em" and "em \<noteq> []"
    and "property body ''password'' = JStr p" and "p \<noteq> []"
    and "findUnique lib tbl (JStr em) = Inr (Some u)"
    and "user_password u = Some h"
    and "bcrypt_compare_impl lib p h = Inr True"
  shows "status (fst (auth_login lib e tbl body)) = 200
    \<and> decoded_email lib (fst (auth_login lib e tbl body)) = JStr (user_email u)
    \<and> status (fst (server_login lib e (Some tbl) body)) = 200"
proof -
  have body: "body \<noteq> JUndefined" "body \<noteq> JNull"
    using assms(2) by auto
  have cmp: "bcrypt_compare lib (JStr p) (user_password u) = Inr True"
    using assms(7,8) by (simp add: bcrypt_compare_def)
  have a: "fst (auth_login lib e tbl body)
      = json 200
          [(''message'', JStr msg_login),
           (''token'', JStr (jwt_sign lib
               (JObj [(''userId'', JStr (user_id u)), (''email'', JStr (user_email u))])
               (auth_JWT_SECRET e) ''24h'' (clock e))),
           (''user'', JObj
              [(''id'', JStr (user_id u)),
               (''email'', JStr (user_email u)),
               (''username'', column (user_username u))])]"
    using assms(2-6) body cmp by (simp add: auth_login_def auth_login_try_def Let_def)
  have s: "status (fst (server_login lib e (Some tbl) body)) = 200"
    using assms(2-6) body cmp
    by (simp add: server_login_def server_login_try_def status_server_json Let_def)
  have da: "decoded_email lib (fst (auth_login lib e tbl body)) = JStr (user_email u)"
    by (rule decoded_email_of_token [OF assms(1)]) (simp add: a json_def, simp)
  show ?thesis
    using da s by (simp add: a json_def)
qed

text \<open>
  C1. With a database (routes/auth.js; server.js with \<^verbatim>\<open>prisma\<close> set), libraries as
  relied on, and an identifier for the new row that is unused: a registration whose
  email is a non-empty string matching no row, whose password is a string of length
  at least 6 and whose username is falsy or a string, every value stored being of at
  most 191 characters, is answered 201, and a login that follows with the same email
  and password is answered 200. In routes/auth.js the answer carries a token whose
  decoded payload has that email.
\<close>

theorem register_then_login:
  assumes "bcrypt_accepts_own_hash lib" and "jwt_decodes_email lib"
    and "property body ''email'' = JStr em" and "em \<noteq> []" and "length em \<le> 191"
    and "property body ''password'' = JStr p" and "6 \<le> length p"
    and "username_fits (property body ''username'')"
    and "findUnique lib tbl (JStr em) = Inr None"
    and "collate lib (generated_id e) \<notin> set (map (\<lambda>u. collate lib (user_id u)) tbl)"
    and "length (generated_id e) \<le> 191"
    and "length (bcrypt_hash_impl lib p 12 (salt e)) \<le> 191"
    and "property body' ''email'' = JStr em"
    and "property body' ''password'' = JStr p"
  shows "status (fst (auth_register lib e tbl body)) = 201
    \<and> status (fst (auth_login lib e' (snd (auth_register lib e tbl body)) body')) = 200
    \<and> decoded_email lib (fst (auth_login lib e' (snd (auth_register lib e tbl body)) body'))
        = JStr em
    \<and> status (fst (server_register lib e (Some tbl) body)) = 201
    \<and> status (fst (server_login lib e' (snd (server_register lib e (Some tbl) body)) body'))
        = 200"
proof -
  from register_new [OF assms(3-12)] obtain u where
    u: "user_email u = em" "user_password u = Some (bcrypt_hash_impl lib p 12 (salt e))"
    and a: "status (fst (auth_register lib e tbl body)) = 201"
      "snd (auth_register lib e tbl body) = tbl @ [u]"
    and s: "status (fst (server_register lib e (Some tbl) body)) = 201"
      "snd (server_register lib e (Some tbl) body) = Some (tbl @ [u])"
    by blast
  have found: "findUnique lib (tbl @ [u]) (JStr em) = Inr (Some u)"
    by (rule findUnique_append_new [OF assms(9) u(1)])
  have cmp: "bcrypt_compare_impl lib p (bcrypt_hash_impl lib p 12 (salt e)) = Inr True"
    using assms(1) by (simp add: bcrypt_accepts_own_hash_def)
  have pw: "p \<noteq> []"
    using assms(7) by auto
  from login_known [OF assms(2) assms(13) assms(4) assms(14) pw found u(2) cmp, of e']
  show ?thesis
    using a s u(1) by simp
qed

theorem register_then_login_witness:
  "status (fst (auth_register sample_libs sample_env [] sample_request)) = 201
    \<and> status (fst (auth_login sample_libs sample_env
          (snd (auth_register sample_libs sample_env [] sample_request)) sample_request))
        = 200
    \<and> decoded_email sample_libs (fst (auth_login sample_libs sample_env
          (snd (auth_register sample_libs sample_env [] sample_request)) sample_request))
        = JStr ''a@b.com''
    \<and> status (fst (server_register sample_libs sample_env (Some []) sample_request)) = 201
    \<and> status (fst (server_login sample_libs sample_env
          (snd (server_register sample_libs sample_env (Some []) sample_request))
          sample_request))
        = 200"
proof -
  have email: "property sample_request ''email'' = JStr ''a@b.com''"
    and password: "property sample_request ''password'' = JStr ''secret1''"
    and username: "username_fits (property sample_request ''username'')"
    by (simp_all add: sample_request_def username_fits_def)
  have present: "''a@b.com'' \<noteq> []" and fits: "length ''a@b.com'' \<le> 191"
    and long: "6 \<le> length ''secret1''"
    by simp_all
  have unknown: "findUnique sample_libs [] (JStr ''a@b.com'') = Inr None"
    by (simp add: findUnique_def)
  have fresh: "collate sample_libs (generated_id sample_env)
      \<notin> set (map (\<lambda>u. collate sample_libs (user_id u)) [])"
    by simp
  have id_fits: "length (generated_id sample_env) \<le> 191"
    by (simp add: sample_env_def)
  have hash_fits: "length (bcrypt_hash_impl sample_libs ''secret1'' 12 (salt sample_env))
      \<le> 191"
    by (simp add: sample_libs_def sample_env_def)
  show ?thesis
    by (rule register_then_login [OF sample_libs_sound email present fits password long
          username unknown fresh id_fits hash_fits email password])
qed

text \<open>
  Without these restrictions the property fails. In server.js with \<^verbatim>\<open>prisma\<close> null the
  registration of a@b.com with the password secret1 is answered 201, nothing is
  stored, and the login that follows is answered 400. With a database, an email of
  192 characters that matches no row does not fit its column, and the login that
  follows the registration is answered 400. And in server.js with a database the
  login that follows is answered 200, but its payload is a string: it has no
  \<^verbatim>\<open>token\<close>.
\<close>

theorem register_then_login_counterexample:
  "property sample_request ''password'' = JStr ''secret1''
    \<and> 6 \<le> length ''secret1''
    \<and> status (fst (server_register sample_libs sample_env None sample_request)) = 201
    \<and> snd (server_register sample_libs sample_env None sample_request) = None
    \<and> status (fst (server_login sample_libs sample_env
          (snd (server_register sample_libs sample_env None sample_request))
          sample_request))
        = 400
    \<and> length (replicate 192 (CHR ''a'')) = 192
    \<and> findUnique sample_libs [] (JStr (replicate 192 (CHR ''a''))) = Inr None
    \<and> status (fst (auth_login sample_libs sample_env
          (snd (auth_register sample_libs sample_env []
             (JObj [(''email'', JStr (replicate 192 (CHR ''a''))),
                    (''password'', JStr ''secret1'')])))
          (JObj [(''email'', JStr (replicate 192 (CHR ''a''))),
                 (''password'', JStr ''secret1'')])))
        = 400
    \<and> status (fst (server_login sample_libs sample_env
          (snd (server_register sample_libs sample_env (Some []) sample_request))
          sample_request))
        = 200
    \<and> property (payload (fst (server_login sample_libs sample_env
          (snd (server_register sample_libs sample_env (Some []) sample_request))
          sample_request))) ''token''
        = JUndefined"
  by (simp add: server_register_def server_register_try_def server_login_def
      server_login_try_def auth_register_def auth_register_try_def auth_login_def
      auth_login_try_def auth_error_def findUnique_def bcrypt_hash_def bcrypt_compare_def
      create_def varchar191_def js_less_def js_or_def sample_libs_def sample_env_def
      sample_request_def json_def server_json_text Let_def)

subsection \<open>Registering an email twice\<close>

text \<open>
  A run whose lookup and insert see the same table is the handler run alone.
\<close>

lemma auth_register_between_alone:
  "auth_register_between lib e tbl tbl body = auth_register lib e tbl body"
  by (simp add: auth_register_between_def auth_register_def auth_register_try_def
      auth_register_lookup_def auth_register_insert_def Let_def
      split: sum.split option.split)

lemma server_register_between_alone:
  "server_register_between lib e prisma prisma body = server_register lib e prisma body"
  by (simp add: server_register_between_def server_register_def server_register_try_def
      server_register_lookup_def server_register_insert_def Let_def
      split: sum.split option.split)

lemma create_result:
  assumes "create lib e tbl email username h = Inr (u, tbl')"
  shows "email = JStr (user_email u) \<and> tbl' = tbl @ [u]"
  using assms by (cases email) (auto simp add: create_def Let_def split: if_splits)

lemma create_taken:
  assumes "collate lib em \<in> set (map (\<lambda>u. collate lib (user_email u)) tbl)"
  shows "\<exists>err. create lib e tbl (JStr em) username h = Inl err"
  using assms by (simp add: create_def)

lemma auth_register_try_created:
  assumes "auth_register_try lib e tbl body = (Inr res, tbl')" and "status res = 201"
  shows "\<exists>u. property body ''email'' = JStr (user_email u) \<and> user_email u \<noteq> []
    \<and> findUnique lib tbl (JStr (user_email u)) = Inr None \<and> tbl' = tbl @ [u]"
  using assms
  by (auto simp add: auth_register_try_def status_json Let_def
      dest!: create_result
      split: if_splits sum.splits option.splits)

lemma server_register_try_created:
  assumes "server_register_try lib e (Some tbl) body = (Inr res, prisma')"
    and "status res = 201"
  shows "\<exists>u. property body ''email'' = JStr (user_email u) \<and> user_email u \<noteq> []
    \<and> findUnique lib tbl (JStr (user_email u)) = Inr None \<and> prisma' = Some (tbl @ [u])"
  using assms
  by (auto simp add: server_register_try_def status_server_json Let_def
      dest!: create_result
      split: if_splits sum.splits option.splits)

lemma records_after_create:
  assumes "findUnique lib tbl (JStr em) = Inr None" and "user_email u = em"
  shows "records_with_email lib (tbl @ [u]) em = [u]
    \<and> records_with_same_email (tbl @ [u]) em = [u]"
proof -
  have none: "\<forall>x\<in>set tbl. collate lib (user_email x) \<noteq> collate lib em"
    using assms(1) by (auto simp add: findUnique_def find_None_iff)
  then have "filter (\<lambda>x. collate lib (user_email x) = collate lib em) tbl = []"
    by (simp add: filter_empty_conv)
  moreover from none have "filter (\<lambda>x. user_email x = em) tbl = []"
    by (auto simp add: filter_empty_conv)
  ultimately show ?thesis
    using assms(2) by (simp add: records_with_email_def records_with_same_email_def)
qed

lemma register_existing:
  assumes "property body ''email'' = JStr em" and "em \<noteq> []"
    and "truthy (property body ''password'')"
    and "js_less lib (js_length (property body ''password'')) 6 = Inr False"
    and "findUnique lib tbl (JStr em) = Inr (Some u)"
  shows "auth_register lib e tbl body = (json 400 [(''error'', JStr msg_exists)], tbl)
    \<and> server_register lib e (Some tbl) body
        = (server_json lib 400 [(''error'', JStr msg_exists)], Some tbl)"
proof -
  have body: "body \<noteq> JUndefined" "body \<noteq> JNull"
    using assms(1) by auto
  show ?thesis
    using assms body
    by (simp add: auth_register_def auth_register_try_def server_register_def
        server_register_try_def)
qed

text \<open>
  A registration that passes the validation and whose lookup found the email free,
  while another request inserted a row with that email before its own insert: the
  unique index rejects the insert, the \<^verbatim>\<open>catch\<close> block answers, and the table is left
  as the other request made it.
\<close>

lemma register_in_flight:
  assumes "property body ''email'' = JStr em" and "em \<noteq> []"
    and "truthy (property body ''password'')"
    and "js_less lib (js_length (property body ''password'')) 6 = Inr False"
    and "findUnique lib tbl (JStr em) = Inr None"
    and "user_email u = em"
  shows "auth_register_between lib e tbl (tbl @ [u]) body = (auth_error, tbl @ [u])
    \<and> (\<exists>err. server_register_between lib e (Some tbl) (Some (tbl @ [u])) body
          = (server_error lib err, Some (tbl @ [u])))"
proof -
  have body: "body \<noteq> JUndefined" "body \<noteq> JNull"
    using assms(1) by auto
  have taken: "collate lib em \<in> set (map (\<lambda>u. collate lib (user_email u)) (tbl @ [u]))"
    using assms(6) by simp
  have a: "auth_register_between lib e tbl (tbl @ [u]) body = (auth_error, tbl @ [u])"
  proof (cases "bcrypt_hash lib (property body ''password'') 12 (salt e)")
    case (Inl err)
    then show ?thesis
      using assms(1-5) body
      by (simp add: auth_register_between_def auth_register_lookup_def)
  next
    case (Inr h)
    from create_taken [OF taken] obtain err where
      "create lib e (tbl @ [u]) (JStr em) (js_or (property body ''username'') JNull) h
        = Inl err"
      by blast
    then show ?thesis
      using assms(1-5) body Inr
      by (simp add: auth_register_between_def auth_register_lookup_def
          auth_register_insert_def)
  qed
  have s: "\<exists>err. server_register_between lib e (Some tbl) (Some (tbl @ [u])) body
          = (server_error lib err, Some (tbl @ [u]))"
  proof (cases "bcrypt_hash lib (property body ''password'') 12 (salt e)")
    case (Inl err)
    then show ?thesis
      using assms(1-5) body
      by (auto simp add: server_register_between_def server_register_lookup_def)
  next
    case (Inr h)
    from create_taken [OF taken] obtain err where
      "create lib e (tbl @ [u]) (JStr em) (js_or (property body ''username'') JNull) h
        = Inl err"
      by blast
    then show ?thesis
      using assms(1-5) body Inr
      by (auto simp add: server_register_between_def server_register_lookup_def
          server_register_insert_def)
  qed
  show ?thesis
    using a s by simp
qed


lemma status_errors: "status auth_error = 500" "status (server_error lib err) = 500"
  by (simp_all add: auth_error_def server_error_def status_json status_server_json)

text \<open>
  C3. With a database, let a registration succeed (201), and let a second request
  with the same email pass the validation (password present and not shorter than 6).
  If the second is handled after the first, it is answered 400 with the text for an
  existing user. If it was in flight with the first, its lookup made before the
  first's insert, it does not succeed either. In both cases it leaves the table as
  the first made it, and the table holds exactly one row with that email, by the
  database's comparison and also string for string: no second row is created.
\<close>

theorem register_twice:
  assumes "property body' ''email'' = property body ''email''"
    and "truthy (property body' ''password'')"
    and "js_less lib (js_length (property body' ''password'')) 6 = Inr False"
  shows "(status (fst (auth_register lib e tbl body)) = 201 \<longrightarrow>
           (\<exists>em tbl'. property body ''email'' = JStr em
              \<and> snd (auth_register lib e tbl body) = tbl'
              \<and> auth_register lib e' tbl' body'
                  = (json 400 [(''error'', JStr msg_exists)], tbl')
              \<and> status (fst (auth_register_between lib e' tbl tbl' body')) \<noteq> 201
              \<and> snd (auth_register_between lib e' tbl tbl' body') = tbl'
              \<and> length (records_with_email lib tbl' em) = 1
              \<and> length (records_with_same_email tbl' em) = 1))
    \<and> (status (fst (server_register lib e (Some tbl) body)) = 201 \<longrightarrow>
           (\<exists>em tbl'. property body ''email'' = JStr em
              \<and> snd (server_register lib e (Some tbl) body) = Some tbl'
              \<and> server_register lib e' (Some tbl') body'
                  = (server_json lib 400 [(''error'', JStr msg_exists)], Some tbl')
              \<and> status (fst (server_register_between lib e' (Some tbl) (Some tbl') body'))
                  \<noteq> 201
              \<and> snd (server_register_between lib e' (Some tbl) (Some tbl') body')
                  = Some tbl'
              \<and> length (records_with_email lib tbl' em) = 1
              \<and> length (records_with_same_email tbl' em) = 1))"
proof (intro conjI impI)
  assume ok: "status (fst (auth_register lib e tbl body)) = 201"
  from auth_register_result [OF ok] obtain tbl' where
    body_result: "auth_register_try lib e tbl body
      = (Inr (fst (auth_register lib e tbl body)), tbl')"
    and tbl': "snd (auth_register lib e tbl body) = tbl'"
    by blast
  from auth_register_try_created [OF body_result ok] obtain u where
    email: "property body ''email'' = JStr (user_email u)" "user_email u \<noteq> []"
    and unknown: "findUnique lib tbl (JStr (user_email u)) = Inr None"
    and appended: "tbl' = tbl @ [u]"
    by blast
  have found: "findUnique lib tbl' (JStr (user_email u)) = Inr (Some u)"
    unfolding appended by (rule findUnique_append_new [OF unknown refl])
  have email': "property body' ''email'' = JStr (user_email u)"
    using assms(1) email(1) by simp
  have after: "auth_register lib e' tbl' body'
      = (json 400 [(''error'', JStr msg_exists)], tbl')"
    using register_existing [OF email' email(2) assms(2,3) found] by simp
  have during: "auth_register_between lib e' tbl tbl' body' = (auth_error, tbl')"
    unfolding appended
    using register_in_flight [OF email' email(2) assms(2,3) unknown refl] by simp
  have one: "length (records_with_email lib tbl' (user_email u)) = 1"
    "length (records_with_same_email tbl' (user_email u)) = 1"
    unfolding appended using records_after_create [OF unknown refl] by simp_all
  show "\<exists>em tbl'. property body ''email'' = JStr em
      \<and> snd (auth_register lib e tbl body) = tbl'
      \<and> auth_register lib e' tbl' body' = (json 400 [(''error'', JStr msg_exists)], tbl')
      \<and> status (fst (auth_register_between lib e' tbl tbl' body')) \<noteq> 201
      \<and> snd (auth_register_between lib e' tbl tbl' body') = tbl'
      \<and> length (records_with_email lib tbl' em) = 1
      \<and> length (records_with_same_email tbl' em) = 1"
    using email(1) tbl' after during one by (auto simp add: status_errors)
next
  assume ok: "status (fst (server_register lib e (Some tbl) body)) = 201"
  from server_register_result [OF ok] obtain prisma' where
    body_result: "server_register_try lib e (Some tbl) body
      = (Inr (fst (server_register lib e (Some tbl) body)), prisma')"
    and prisma': "snd (server_register lib e (Some tbl) body) = prisma'"
    by blast
  from server_register_try_created [OF body_result ok] obtain u where
    email: "property body ''email'' = JStr (user_email u)" "user_email u \<noteq> []"
    and unknown: "findUnique lib tbl (JStr (user_email u)) = Inr None"
    and appended: "prisma' = Some (tbl @ [u])"
    by blast
  have found: "findUnique lib (tbl @ [u]) (JStr (user_email u)) = Inr (Some u)"
    by (rule findUnique_append_new [OF unknown refl])
  have email': "property body' ''email'' = JStr (user_email u)"
    using assms(1) email(1) by simp
  have after: "server_register lib e' (Some (tbl @ [u])) body'
      = (server_json lib 400 [(''error'', JStr msg_exists)], Some (tbl @ [u]))"
    using register_existing [OF email' email(2) assms(2,3) found] by simp
  from register_in_flight [OF email' email(2) assms(2,3) unknown refl] obtain err where
    during: "server_register_between lib e' (Some tbl) (Some (tbl @ [u])) body'
      = (server_error lib err, Some (tbl @ [u]))"
    by blast
  have one: "length (records_with_email lib (tbl @ [u]) (user_email u)) = 1"
    "length (records_with_same_email (tbl @ [u]) (user_email u)) = 1"
    using records_after_create [OF unknown refl] by simp_all
  show "\<exists>em tbl'. property body ''email'' = JStr em
      \<and> snd (server_register lib e (Some tbl) body) = Some tbl'
      \<and> server_register lib e' (Some tbl') body'
          = (server_json lib 400 [(''error'', JStr msg_exists)], Some tbl')
      \<and> status (fst (server_register_between lib e' (Some tbl) (Some tbl') body')) \<noteq> 201
      \<and> snd (server_register_between lib e' (Some tbl) (Some tbl') body') = Some tbl'
      \<and> length (records_with_email lib tbl' em) = 1
      \<and> length (records_with_same_email tbl' em) = 1"
    using email(1) prisma' appended after during one by (auto simp add: status_errors)
qed

theorem register_twice_witness:
  "(\<exists>em tbl'. property sample_request ''email'' = JStr em
      \<and> snd (auth_register sample_libs sample_env [] sample_request) = tbl'
      \<and> auth_register sample_libs sample_env tbl' sample_request
          = (json 400 [(''error'', JStr msg_exists)], tbl')
      \<and> status (fst (auth_register_between sample_libs sample_env [] tbl' sample_request))
          \<noteq> 201
      \<and> snd (auth_register_between sample_libs sample_env [] tbl' sample_request) = tbl'
      \<and> length (records_with_email sample_libs tbl' em) = 1
      \<and> length (records_with_same_email tbl' em) = 1)
    \<and> (\<exists>em tbl'. property sample_request ''email'' = JStr em
      \<and> snd (server_register sample_libs sample_env (Some []) sample_request) = Some tbl'
      \<and> server_register sample_libs sample_env (Some tbl') sample_request
          = (server_json sample_libs 400 [(''error'', JStr msg_exists)], Some tbl')
      \<and> status (fst (server_register_between sample_libs sample_env (Some []) (Some tbl')
            sample_request)) \<noteq> 201
      \<and> snd (server_register_between sample_libs sample_env (Some []) (Some tbl')
            sample_request) = Some tbl'
      \<and> length (records_with_email sample_libs tbl' em) = 1
      \<and> length (records_with_same_email tbl' em) = 1)"
proof -
  have password: "truthy (property sample_request ''password'')"
    and long: "js_less sample_libs (js_length (property sample_request ''password'')) 6
      = Inr False"
    by (simp_all add: sample_request_def js_less_def)
  from register_twice [OF refl password long, of sample_env "[]" sample_env]
    sample_register_status
  show ?thesis
    by blast
qed

text \<open>
  For any two registrations with the same email the property fails. In server.js
  with \<^verbatim>\<open>prisma\<close> null both are answered 201 and nothing is stored. With a database,
  a second request in flight with the first is answered by the \<^verbatim>\<open>catch\<close> block, with
  500 and not with the 400 for an existing user; and a second request whose password
  has 5 characters is answered with the validation error.
\<close>

theorem register_twice_counterexample:
  "status (fst (server_register sample_libs sample_env None sample_request)) = 201
    \<and> snd (server_register sample_libs sample_env None sample_request) = None
    \<and> status (fst (server_register sample_libs sample_env
          (snd (server_register sample_libs sample_env None sample_request))
          sample_request)) = 201
    \<and> status (fst (auth_register sample_libs sample_env [] sample_request)) = 201
    \<and> auth_register_between sample_libs (sample_env\<lparr>generated_id := ''u2''\<rparr>) []
          (snd (auth_register sample_libs sample_env [] sample_request)) sample_request
        = (auth_error, snd (auth_register sample_libs sample_env [] sample_request))
    \<and> status auth_error = 500
    \<and> fst (auth_register sample_libs sample_env
          (snd (auth_register sample_libs sample_env [] sample_request))
          (JObj [(''email'', JStr ''a@b.com''), (''password'', JStr ''12345'')]))
        = json 400 [(''error'', JStr msg_short_password)]
    \<and> msg_short_password \<noteq> msg_exists"
  by (simp add: server_register_def server_register_try_def auth_register_def
      auth_register_try_def auth_register_between_def auth_register_lookup_def
      auth_register_insert_def auth_error_def findUnique_def bcrypt_hash_def create_def
      varchar191_def js_less_def js_or_def sample_libs_def sample_env_def sample_request_def
      json_def status_server_json Let_def msg_short_password_def msg_exists_def)

subsection \<open>Seeding the catalog\<close>








text \<open>An entry leaves no choice of the row that holds it.\<close>

lemma row_holds_unique: "row_holds r d \<Longrightarrow> row_holds r' d \<Longrightarrow> r = r'"
  by (cases "truthy (property d ''slug'')") (auto simp add: row_holds_def)

lemma main_without_data:
  "main lib None tbl = (None, tbl) \<and> main lib (Some []) tbl = (None, tbl)"
  by (simp add: main_def)





end
